theory Spec2Isabelle
  imports Main "HOL-Library.Word"
begin

section \<open>Text and bytes\<close>

text \<open>
  A Python \<open>str\<close> is a sequence of Unicode code points and a \<open>bytes\<close> object a sequence
  of octets. Literals of the source are written with \<open>str\<close>, which reads an Isabelle
  string literal as code points.
\<close>

type_synonym pystr = "nat list"
type_synonym byte = "8 word"

definition str :: "string \<Rightarrow> pystr" where
  "str s = map of_char s"

text \<open>
  \<open>str.isspace\<close> for one code point; the same set is what \<open>\s\<close> matches in a
  pattern over \<open>str\<close>, and what \<open>str.strip()\<close> removes.
\<close>

definition isspace :: "nat \<Rightarrow> bool" where
  "isspace c \<longleftrightarrow>
     (9 \<le> c \<and> c \<le> 13) \<or> (28 \<le> c \<and> c \<le> 32) \<or> c = 133 \<or> c = 160 \<or> c = 5760 \<or>
     (8192 \<le> c \<and> c \<le> 8202) \<or> c = 8232 \<or> c = 8233 \<or> c = 8239 \<or> c = 8287 \<or> c = 12288"

definition py_strip :: "pystr \<Rightarrow> pystr" where
  "py_strip s = rev (dropWhile isspace (rev (dropWhile isspace s)))"

text \<open>\<open>s.split(sep)\<close> for a separator of one character: never an empty list.\<close>

fun py_split :: "nat \<Rightarrow> pystr \<Rightarrow> pystr list" where
  "py_split sep [] = [] # []"
| "py_split sep (c # cs) =
     (if c = sep then [] # py_split sep cs
      else (case py_split sep cs of
              [] \<Rightarrow> [c] # []
            | l # ls \<Rightarrow> (c # l) # ls))"

definition startswith :: "pystr \<Rightarrow> pystr \<Rightarrow> bool" where
  "startswith s p \<longleftrightarrow> take (length p) s = p"

text \<open>
  \<open>re.split(r"\s{2,}", line)\<close>: the scan goes left to right; where two whitespace
  characters stand next to each other the greedy match takes the whole run, the field
  read so far is emitted and the scan goes on after the run. The first argument is the
  field being read.
\<close>

function re_split :: "pystr \<Rightarrow> pystr \<Rightarrow> pystr list" where
  "re_split cur [] = [cur]"
| "re_split cur [c] = [cur @ [c]]"
| "re_split cur (c # d # cs) =
     (if isspace c \<and> isspace d
      then cur # re_split [] (dropWhile isspace cs)
      else re_split (cur @ [c]) (d # cs))"
  by pat_completeness auto
termination
  by (relation "measure (\<lambda>(cur, s). length s)")
     (simp_all add: less_Suc_eq_le le_SucI length_dropWhile_le)

section \<open>The listing parser (app/core/container_use.py)\<close>

record environment =
  id' :: pystr
  title :: pystr
  created :: pystr
  updated :: pystr

text \<open>
  The first loop of \<open>parse_environment_list\<close>: \<open>enumerate(lines)\<close> with the index of
  the head of the remaining lines; \<open>start_index\<close> stays 0 when no line matches.
\<close>

fun find_start_index :: "nat \<Rightarrow> pystr list \<Rightarrow> nat" where
  "find_start_index i [] = 0"
| "find_start_index i (line # rest) =
     (if startswith (py_strip line) (str ''ID'') then i + 1
      else find_start_index (i + 1) rest)"

text \<open>The second loop: \<open>for i in range(start_index, len(lines))\<close>.\<close>

function parse_rows :: "pystr list \<Rightarrow> nat \<Rightarrow> environment list \<Rightarrow> environment list" where
  "parse_rows lines i environments =
     (if i < length lines then
        (let line = py_strip (lines ! i) in
         if line = [] then parse_rows lines (i + 1) environments
         else
           (let fields = re_split [] line in
            if 4 \<le> length fields then
              parse_rows lines (i + 1)
                (environments @
                 [\<lparr>id' = py_strip (fields ! 0), title = py_strip (fields ! 1),
                   created = py_strip (fields ! 2), updated = py_strip (fields ! 3)\<rparr>])
            else parse_rows lines (i + 1) environments))
      else environments)"
  by pat_completeness auto
termination
  by (relation "measure (\<lambda>(lines, i, environments). length lines - i)") auto

definition parse_environment_list :: "pystr \<Rightarrow> environment list" where
  "parse_environment_list output =
     (let lines = py_split 10 (py_strip output);
          start_index = find_start_index 0 lines
      in parse_rows lines start_index [])"


text \<open>
  What the listing is read as. A header is a row that begins with \<open>ID\<close> once trimmed.
  \<open>rows_after_header\<close> keeps what follows the first header (every row when there is
  none); \<open>rows_without_header\<close> removes the first header alone. \<open>listed_environments\<close>
  trims the rows, leaves the empty ones out, splits each into columns, leaves out the rows
  of fewer than four columns and reads the first four columns of each remaining row.
\<close>

definition is_header :: "pystr \<Rightarrow> bool" where
  "is_header line \<longleftrightarrow> startswith (py_strip line) (str ''ID'')"

definition rows_after_header :: "pystr list \<Rightarrow> pystr list" where
  "rows_after_header lines =
     (case dropWhile (\<lambda>l. \<not> is_header l) lines of [] \<Rightarrow> lines | h # rest \<Rightarrow> rest)"

definition rows_without_header :: "pystr list \<Rightarrow> pystr list" where
  "rows_without_header lines =
     takeWhile (\<lambda>l. \<not> is_header l) lines @ tl (dropWhile (\<lambda>l. \<not> is_header l) lines)"

definition environment_of :: "pystr list \<Rightarrow> environment" where
  "environment_of cols =
     \<lparr>id' = cols ! 0, title = cols ! 1, created = cols ! 2, updated = cols ! 3\<rparr>"

definition listed_environments :: "pystr list \<Rightarrow> environment list" where
  "listed_environments rows =
     map environment_of
       (filter (\<lambda>cols. 4 \<le> length cols)
          (map (re_split []) (filter (\<lambda>r. r \<noteq> []) (map py_strip rows))))"

definition trimmed :: "pystr \<Rightarrow> bool" where
  "trimmed s \<longleftrightarrow> s \<noteq> [] \<and> \<not> isspace (hd s) \<and> \<not> isspace (last s)"

text \<open>
  What it is to split a row on runs of two or more whitespace characters: the columns,
  woven with gaps between them, give the row back; a gap is a run of two or more whitespace
  characters; and no column holds two whitespace characters next to each other, nor begins
  or ends with one.
\<close>

fun weave :: "pystr list \<Rightarrow> pystr list \<Rightarrow> pystr" where
  "weave (f # fs) (g # gs) = f @ g @ weave fs gs"
| "weave fs [] = concat fs"
| "weave [] gs = []"

fun no_gap :: "pystr \<Rightarrow> bool" where
  "no_gap (c # d # cs) \<longleftrightarrow> (if isspace c then \<not> isspace d else True) \<and> no_gap (d # cs)"
| "no_gap cs \<longleftrightarrow> True"

definition is_gap :: "pystr \<Rightarrow> bool" where
  "is_gap g \<longleftrightarrow> 2 \<le> length g \<and> list_all isspace g"

section \<open>Decoding and encoding UTF-8\<close>

text \<open>
  \<open>bytes.decode("utf-8")\<close> with the default, strict error handling: a byte sequence that
  is not well-formed UTF-8 (a stray or missing continuation byte, an overlong form, a
  surrogate, a value above U+10FFFF) raises \<open>UnicodeDecodeError\<close>, here \<open>None\<close>.
\<close>

definition continuation :: "byte \<Rightarrow> bool" where
  "continuation b \<longleftrightarrow> 0x80 \<le> b \<and> b \<le> 0xBF"

definition tail6 :: "byte \<Rightarrow> nat" where
  "tail6 b = unat b - 0x80"

text \<open>The range of the second byte after the lead byte \<open>b0\<close> of a longer sequence.\<close>

definition second_low :: "byte \<Rightarrow> byte" where
  "second_low b0 = (if b0 = 0xE0 then 0xA0 else if b0 = 0xF0 then 0x90 else 0x80)"

definition second_high :: "byte \<Rightarrow> byte" where
  "second_high b0 = (if b0 = 0xED then 0x9F else if b0 = 0xF4 then 0x8F else 0xBF)"

fun utf8_decode :: "byte list \<Rightarrow> pystr option" where
  "utf8_decode [] = Some []"
| "utf8_decode (b0 # bs) =
     (if b0 < 0x80 then map_option ((#) (unat b0)) (utf8_decode bs)
      else if 0xC2 \<le> b0 \<and> b0 \<le> 0xDF then
        (case bs of
           b1 # rest \<Rightarrow>
             if continuation b1
             then map_option ((#) ((unat b0 - 0xC0) * 64 + tail6 b1)) (utf8_decode rest)
             else None
         | _ \<Rightarrow> None)
      else if 0xE0 \<le> b0 \<and> b0 \<le> 0xEF then
        (case bs of
           b1 # b2 # rest \<Rightarrow>
             if second_low b0 \<le> b1 \<and> b1 \<le> second_high b0 \<and> continuation b2
             then map_option ((#) ((unat b0 - 0xE0) * 4096 + tail6 b1 * 64 + tail6 b2))
                    (utf8_decode rest)
             else None
         | _ \<Rightarrow> None)
      else if 0xF0 \<le> b0 \<and> b0 \<le> 0xF4 then
        (case bs of
           b1 # b2 # b3 # rest \<Rightarrow>
             if second_low b0 \<le> b1 \<and> b1 \<le> second_high b0 \<and>
                continuation b2 \<and> continuation b3
             then map_option
                    ((#) ((unat b0 - 0xF0) * 262144 + tail6 b1 * 4096 + tail6 b2 * 64 + tail6 b3))
                    (utf8_decode rest)
             else None
         | _ \<Rightarrow> None)
      else None)"

text \<open>
  \<open>str.encode("utf-8")\<close>: a surrogate code point cannot be encoded
  (\<open>UnicodeEncodeError\<close>); a \<open>str\<close> holds no code point above U+10FFFF.
\<close>

definition utf8_encode_char :: "nat \<Rightarrow> byte list option" where
  "utf8_encode_char c =
     (if c < 0x80 then Some [of_nat c]
      else if c < 0x800 then Some [of_nat (0xC0 + c div 64), of_nat (0x80 + c mod 64)]
      else if 0xD800 \<le> c \<and> c \<le> 0xDFFF then None
      else if c < 0x10000 then
        Some [of_nat (0xE0 + c div 4096), of_nat (0x80 + c div 64 mod 64), of_nat (0x80 + c mod 64)]
      else if c < 0x110000 then
        Some [of_nat (0xF0 + c div 262144), of_nat (0x80 + c div 4096 mod 64),
              of_nat (0x80 + c div 64 mod 64), of_nat (0x80 + c mod 64)]
      else None)"

fun utf8_encode :: "pystr \<Rightarrow> byte list option" where
  "utf8_encode [] = Some []"
| "utf8_encode (c # cs) =
     (case utf8_encode_char c of
        None \<Rightarrow> None
      | Some bs \<Rightarrow> map_option ((@) bs) (utf8_encode cs))"

section \<open>Running the tool (app/core/container_use.py)\<close>

text \<open>
  The exceptions that play a part. \<open>is_Exception e\<close> is \<open>isinstance(e, Exception)\<close>:
  \<open>CancelledError\<close> (since Python 3.8) and \<open>KeyboardInterrupt\<close> derive from
  \<open>BaseException\<close> only, so that \<open>except Exception\<close> does not catch them.
\<close>

datatype py_exception =
    OSError pystr
  | UnicodeDecodeError "byte list"
  | UnicodeEncodeError pystr
  | OtherException pystr
  | CancelledError
  | KeyboardInterrupt

fun is_Exception :: "py_exception \<Rightarrow> bool" where
  "is_Exception CancelledError = False"
| "is_Exception KeyboardInterrupt = False"
| "is_Exception (OSError m) = True"
| "is_Exception (UnicodeDecodeError b) = True"
| "is_Exception (UnicodeEncodeError t) = True"
| "is_Exception (OtherException m) = True"

text \<open>
  What the operating system does with one invocation: \<open>create_subprocess_exec\<close> raises,
  or \<open>communicate()\<close> raises, or the process runs to its end and \<open>communicate()\<close>
  returns the bytes of its two pipes, with \<open>process.returncode\<close> as it then stands.
\<close>

datatype exec_result =
    SpawnRaises py_exception
  | CommunicateRaises py_exception
  | Completed "byte list" "byte list" "int option"

text \<open>
  The surroundings of the functions that run the tool: the two settings, what \<open>print\<close>
  of a line raises (\<open>None\<close>: it returns), what executing a command line in a working
  directory results in, \<open>str(e)\<close> for an exception, and the order in which a \<open>set\<close>
  of strings is iterated, which depends on the hash seed of the interpreter.
\<close>

record system =
  container_use_bin :: pystr
  container_use_work_dir :: pystr
  print_line :: "pystr \<Rightarrow> py_exception option"
  subprocess_exec :: "pystr list \<Rightarrow> pystr \<Rightarrow> exec_result"
  exception_str :: "py_exception \<Rightarrow> pystr"
  set_order :: "pystr list \<Rightarrow> pystr list"

text \<open>\<open>b.decode("utf-8") if b else ""\<close>, with the exception as a value.\<close>

definition decode_output :: "byte list \<Rightarrow> py_exception + pystr" where
  "decode_output b =
     (if b \<noteq> [] then
        (case utf8_decode b of None \<Rightarrow> Inl (UnicodeDecodeError b) | Some s \<Rightarrow> Inr s)
      else Inr [])"

text \<open>\<open>sep.join(xs)\<close> for a list of strings.\<close>

fun py_join :: "pystr \<Rightarrow> pystr list \<Rightarrow> pystr" where
  "py_join sep [] = []"
| "py_join sep [x] = x"
| "py_join sep (x # y # ys) = x @ sep @ py_join sep (y # ys)"

text \<open>The line that \<open>run_container_use_command\<close> prints before its \<open>try\<close>.\<close>

definition announcement :: "pystr list \<Rightarrow> pystr \<Rightarrow> pystr" where
  "announcement cmd cwd =
     str ''Running command: '' @ py_join (str '' '') cmd @ str '' in directory: '' @ cwd"

text \<open>
  The body of the \<open>try\<close> of \<open>run_container_use_command\<close>: \<open>Inl e\<close> when \<open>e\<close> is
  raised in it. The three components of the returned tuple are evaluated in order inside
  the \<open>try\<close>, so that an exception of either \<open>decode\<close> is raised there as well.
\<close>

definition try_run :: "system \<Rightarrow> pystr list \<Rightarrow> pystr \<Rightarrow> py_exception + (pystr \<times> pystr \<times> int)" where
  "try_run sys cmd cwd =
     (case subprocess_exec sys cmd cwd of
        SpawnRaises e \<Rightarrow> Inl e
      | CommunicateRaises e \<Rightarrow> Inl e
      | Completed stdout stderr returncode \<Rightarrow>
          (case decode_output stdout of
             Inl e \<Rightarrow> Inl e
           | Inr out \<Rightarrow>
               (case decode_output stderr of
                  Inl e \<Rightarrow> Inl e
                | Inr err \<Rightarrow>
                    Inr (out, err, (case returncode of None \<Rightarrow> 0 | Some c \<Rightarrow> c)))))"

text \<open>
  \<open>run_container_use_command(args, cwd)\<close>; \<open>cwd\<close> is \<open>None\<close> by default. The result
  is \<open>Inr\<close> of the returned tuple, or \<open>Inl e\<close> when the call raises \<open>e\<close>: the
  \<open>print\<close> stands before the \<open>try\<close>, and \<open>except Exception\<close> lets through what is
  not an \<open>Exception\<close>.
\<close>

definition run_container_use_command ::
  "system \<Rightarrow> pystr list \<Rightarrow> pystr option \<Rightarrow> py_exception + (pystr \<times> pystr \<times> int)" where
  "run_container_use_command sys args cwd_arg =
     (let cwd = (case cwd_arg of None \<Rightarrow> container_use_work_dir sys | Some d \<Rightarrow> d);
          cmd = [container_use_bin sys] @ args
      in case print_line sys (announcement cmd cwd) of
           Some e \<Rightarrow> Inl e
         | None \<Rightarrow>
             (case try_run sys cmd cwd of
                Inl e \<Rightarrow> if is_Exception e then Inr ([], exception_str sys e, 1) else Inl e
              | Inr result \<Rightarrow> Inr result))"

section \<open>The request endpoints (app/api/routes/environments.py)\<close>

text \<open>
  \<open>str.lower()\<close> on the letters A to Z. Python lowers letters outside ASCII as well; no
  such letter becomes a character of the two phrases searched for below next to their
  other characters, so the searches give the same answer.
\<close>

definition py_lower :: "pystr \<Rightarrow> pystr" where
  "py_lower s = map (\<lambda>c. if 65 \<le> c \<and> c \<le> 90 then c + 32 else c) s"

text \<open>\<open>sub in s\<close> for two strings.\<close>

fun py_in :: "pystr \<Rightarrow> pystr \<Rightarrow> bool" where
  "py_in sub [] \<longleftrightarrow> sub = []"
| "py_in sub (c # cs) \<longleftrightarrow> startswith (c # cs) sub \<or> py_in sub cs"

datatype http_exception = HTTPException (status_code: nat) (detail: "(pystr \<times> pystr) list")

text \<open>
  How a call of an endpoint ends: it returns a value, it raises an \<open>HTTPException\<close>, or an
  exception raised by \<open>run_container_use_command\<close> passes through it, since no endpoint
  wraps that call in a \<open>try\<close>.
\<close>

datatype 'a response = Returns 'a | RaisesHTTP http_exception | Propagates py_exception

record action_request =
  action :: pystr
  environment_id :: pystr

record action_response =
  success :: bool
  response_action :: pystr
  response_environment_id :: pystr
  response_output :: pystr

text \<open>
  The test shared by the three endpoints on a non-zero return code:
  \<open>error_output = stderr or stdout\<close>, then the two searches in its lower-case form.
\<close>

definition error_output_of :: "pystr \<Rightarrow> pystr \<Rightarrow> pystr" where
  "error_output_of stderr stdout = (if stderr \<noteq> [] then stderr else stdout)"

definition is_not_found :: "pystr \<Rightarrow> bool" where
  "is_not_found error_output \<longleftrightarrow>
     py_in (str ''not found'') (py_lower error_output) \<or>
     py_in (str ''does not exist'') (py_lower error_output)"

definition get_environment_logs :: "system \<Rightarrow> pystr \<Rightarrow> pystr response" where
  "get_environment_logs sys env_id =
     (if env_id = [] then
        RaisesHTTP (HTTPException 400 [(str ''error'', str ''Environment ID is required'')])
      else
        (case run_container_use_command sys [str ''log'', env_id] None of
           Inl e \<Rightarrow> Propagates e
         | Inr (stdout, stderr, return_code) \<Rightarrow>
             if return_code \<noteq> 0 then
               (let error_output = error_output_of stderr stdout in
                if is_not_found error_output then
                  RaisesHTTP (HTTPException 404
                    [(str ''error'', str ''Environment '' @ [39] @ env_id @ [39] @ str '' not found''),
                     (str ''detail'', error_output)])
                else
                  RaisesHTTP (HTTPException 500
                    [(str ''error'',
                      str ''Failed to get logs for environment '' @ [39] @ env_id @ [39]),
                     (str ''detail'', error_output)]))
             else Returns stdout))"

definition get_environment_diff :: "system \<Rightarrow> pystr \<Rightarrow> pystr response" where
  "get_environment_diff sys env_id =
     (if env_id = [] then
        RaisesHTTP (HTTPException 400 [(str ''error'', str ''Environment ID is required'')])
      else
        (case run_container_use_command sys [str ''diff'', env_id] None of
           Inl e \<Rightarrow> Propagates e
         | Inr (stdout, stderr, return_code) \<Rightarrow>
             if return_code \<noteq> 0 then
               (let error_output = error_output_of stderr stdout in
                if is_not_found error_output then
                  RaisesHTTP (HTTPException 404
                    [(str ''error'', str ''Environment '' @ [39] @ env_id @ [39] @ str '' not found''),
                     (str ''detail'', error_output)])
                else
                  RaisesHTTP (HTTPException 500
                    [(str ''error'',
                      str ''Failed to get diff for environment '' @ [39] @ env_id @ [39]),
                     (str ''detail'', error_output)]))
             else Returns stdout))"

text \<open>
  \<open>valid_actions\<close> is a \<open>set\<close> in the source. \<open>', '.join(valid_actions)\<close> lists its
  elements in the order in which the set is iterated: some arrangement of the four actions,
  given by \<open>set_order\<close>.
\<close>

definition valid_actions :: "pystr list" where
  "valid_actions = [str ''apply'', str ''checkout'', str ''delete'', str ''merge'']"

definition iterate_set :: "system \<Rightarrow> pystr list \<Rightarrow> pystr list" where
  "iterate_set sys xs =
     (if distinct (set_order sys xs) \<and> set (set_order sys xs) = set xs then set_order sys xs
      else xs)"

definition execute_action :: "system \<Rightarrow> action_request \<Rightarrow> action_response response" where
  "execute_action sys request =
     (if action request = [] \<or> environment_id request = [] then
        RaisesHTTP
          (HTTPException 400 [(str ''error'', str ''Action and environment_id are required'')])
      else if action request \<notin> set valid_actions then
        RaisesHTTP (HTTPException 400
          [(str ''error'', str ''Invalid action''),
           (str ''detail'',
            str ''Action must be one of: '' @ py_join (str '', '') (iterate_set sys valid_actions))])
      else
        (case run_container_use_command sys [action request, environment_id request] None of
           Inl e \<Rightarrow> Propagates e
         | Inr (stdout, stderr, return_code) \<Rightarrow>
             if return_code \<noteq> 0 then
               (let error_output = error_output_of stderr stdout in
                if is_not_found error_output then
                  RaisesHTTP (HTTPException 404
                    [(str ''error'',
                      str ''Environment '' @ [39] @ environment_id request @ [39] @ str '' not found''),
                     (str ''detail'', error_output)])
                else
                  RaisesHTTP (HTTPException 500
                    [(str ''error'',
                      str ''Failed to execute '' @ [39] @ action request @ [39] @
                      str '' on environment '' @ [39] @ environment_id request @ [39]),
                     (str ''detail'', error_output)]))
             else
               Returns \<lparr>success = True, response_action = action request,
                        response_environment_id = environment_id request,
                        response_output = stdout\<rparr>))"

section \<open>Notions used to state the properties of the endpoints\<close>

text \<open>
  The HTTP status of a response: 200 for a returned value, the status of the
  \<open>HTTPException\<close>; what is answered when another exception passes through the endpoint
  is decided outside these functions (\<open>None\<close>).
\<close>

fun http_status :: "'a response \<Rightarrow> nat option" where
  "http_status (Returns v) = Some 200"
| "http_status (RaisesHTTP e) = Some (status_code e)"
| "http_status (Propagates e) = None"

text \<open>
  A request to one of the three endpoints, the arguments with which it runs the tool, the
  condition under which it runs the tool at all (the identifier is not empty, and the
  action is not empty and is one of the four), its answer, and the value it returns for a
  captured stdout.
\<close>

datatype request = Logs pystr | Diff pystr | Action pystr pystr

datatype body = Plain pystr | Structured action_response

fun tool_args :: "request \<Rightarrow> pystr list" where
  "tool_args (Logs env_id) = [str ''log'', env_id]"
| "tool_args (Diff env_id) = [str ''diff'', env_id]"
| "tool_args (Action act env_id) = [act, env_id]"

fun runs_tool :: "request \<Rightarrow> bool" where
  "runs_tool (Logs env_id) \<longleftrightarrow> env_id \<noteq> []"
| "runs_tool (Diff env_id) \<longleftrightarrow> env_id \<noteq> []"
| "runs_tool (Action act env_id) \<longleftrightarrow> act \<noteq> [] \<and> env_id \<noteq> [] \<and> act \<in> set valid_actions"

fun map_response :: "('a \<Rightarrow> 'b) \<Rightarrow> 'a response \<Rightarrow> 'b response" where
  "map_response f (Returns v) = Returns (f v)"
| "map_response f (RaisesHTTP e) = RaisesHTTP e"
| "map_response f (Propagates e) = Propagates e"

fun answer :: "system \<Rightarrow> request \<Rightarrow> body response" where
  "answer sys (Logs env_id) = map_response Plain (get_environment_logs sys env_id)"
| "answer sys (Diff env_id) = map_response Plain (get_environment_diff sys env_id)"
| "answer sys (Action act env_id) =
     map_response Structured (execute_action sys \<lparr>action = act, environment_id = env_id\<rparr>)"

fun success_body :: "request \<Rightarrow> pystr \<Rightarrow> body" where
  "success_body (Logs env_id) out = Plain out"
| "success_body (Diff env_id) out = Plain out"
| "success_body (Action act env_id) out =
     Structured \<lparr>success = True, response_action = act, response_environment_id = env_id,
                 response_output = out\<rparr>"

text \<open>
  What the operating system does with the tool for a request: the command line is the
  configured binary followed by the arguments, run in the configured directory.
\<close>

definition tool_run :: "system \<Rightarrow> request \<Rightarrow> exec_result" where
  "tool_run sys req =
     subprocess_exec sys (container_use_bin sys # tool_args req) (container_use_work_dir sys)"


definition announced :: "system \<Rightarrow> request \<Rightarrow> bool" where
  "announced sys req \<longleftrightarrow>
     print_line sys
       (announcement (container_use_bin sys # tool_args req) (container_use_work_dir sys)) = None"

text \<open>
  The exception on account of which a run of the tool yields no output and no exit code of
  the tool: the one raised on starting it or on communicating with it, or the decoding
  error of the first of stdout, stderr that is not UTF-8.
\<close>

fun run_failure :: "exec_result \<Rightarrow> py_exception option" where
  "run_failure (SpawnRaises e) = Some e"
| "run_failure (CommunicateRaises e) = Some e"
| "run_failure (Completed out err rc) =
     (if utf8_decode out = None then Some (UnicodeDecodeError out)
      else if utf8_decode err = None then Some (UnicodeDecodeError err)
      else None)"

text \<open>
  A text holds a phrase case-insensitively: at some position of the text stand, one after
  the other, the characters of the phrase, each up to the case of a letter A to Z.
\<close>

definition same_letter :: "nat \<Rightarrow> nat \<Rightarrow> bool" where
  "same_letter a b \<longleftrightarrow>
     a = b \<or> (65 \<le> a \<and> a \<le> 90 \<and> b = a + 32) \<or> (65 \<le> b \<and> b \<le> 90 \<and> a = b + 32)"

fun contains_ignoring_case :: "pystr \<Rightarrow> pystr \<Rightarrow> bool" where
  "contains_ignoring_case [] phrase \<longleftrightarrow> phrase = []"
| "contains_ignoring_case (c # cs) phrase \<longleftrightarrow>
     list_all2 same_letter (take (length phrase) (c # cs)) phrase \<or>
     contains_ignoring_case cs phrase"

definition says_not_found :: "pystr \<Rightarrow> bool" where
  "says_not_found t \<longleftrightarrow>
     contains_ignoring_case t (str ''not found'') \<or>
     contains_ignoring_case t (str ''does not exist'')"

text \<open>
  The not-found condition as the specification words it: either stream of the tool holds
  one of the two phrases, in any letter case.
\<close>

definition mentions_not_found :: "pystr \<Rightarrow> pystr \<Rightarrow> bool" where
  "mentions_not_found stderr stdout \<longleftrightarrow> says_not_found stderr \<or> says_not_found stdout"

text \<open>The error output: the stderr of the tool when it is not empty, else its stdout.\<close>

definition reported_error :: "pystr \<Rightarrow> pystr \<Rightarrow> pystr" where
  "reported_error stderr stdout = (if stderr = [] then stdout else stderr)"

text \<open>A \<open>bytes\<close> literal of ASCII characters.\<close>

definition bytes_of :: "string \<Rightarrow> byte list" where
  "bytes_of s = map of_char s"

section \<open>Example systems\<close>

text \<open>
  A system in which \<open>print\<close> returns, sets are iterated in the order given, the text of
  an exception is given by \<open>describe\<close> and every command line results in \<open>r\<close>.
\<close>

definition system_with :: "exec_result \<Rightarrow> (py_exception \<Rightarrow> pystr) \<Rightarrow> system" where
  "system_with r describe =
     \<lparr>container_use_bin = str ''container-use'', container_use_work_dir = str ''.'',
      print_line = (\<lambda>line. None), subprocess_exec = (\<lambda>cmd cwd. r),
      exception_str = describe, set_order = (\<lambda>xs. xs)\<rparr>"

text \<open>
  In the first system the tool fails with an unrelated complaint on stderr while its stdout
  says that the environment was not found; in the second the tool exits with status 0 and a
  byte on stdout that is not UTF-8; in the third the call is cancelled while it waits for
  the tool; in the fourth the standard output of the server is closed, so that \<open>print\<close>
  raises; in the fifth the binary is missing.
\<close>

definition sys_not_found_on_stdout :: system where
  "sys_not_found_on_stdout =
     system_with (Completed (bytes_of ''environment not found'') (bytes_of ''boom'') (Some 1))
       (\<lambda>e. [])"

definition sys_invalid_output :: system where
  "sys_invalid_output = system_with (Completed [0xFF] [] (Some 0)) (\<lambda>e. str ''invalid start byte'')"



definition sys_no_binary :: system where
  "sys_no_binary =
     system_with (SpawnRaises (OSError (str ''No such file or directory'')))
       (\<lambda>e. case e of OSError m \<Rightarrow> m | _ \<Rightarrow> [])"

section \<open>The WebSocket side and the process side of a session\<close>

text \<open>
  The two WebSocket handlers of \<open>app/api/routes/environments.py\<close> run on one event
  loop: a coroutine runs until its next \<open>await\<close>. What the surroundings do is given as
  data: for each awaited call a script lists, in order, what its successive calls result in
  (a script that has run out means that the call never returns), and a schedule lists the
  order in which the tasks take their steps.
\<close>

datatype json =
    JNull
  | JBool bool
  | JNumber int
  | JString pystr
  | JArray "json list"
  | JObject "(pystr \<times> json) list"

text \<open>
  \<open>outbox\<close> holds the values handed to \<open>send_json\<close>, in order; \<open>closed\<close> is set by
  \<open>close()\<close>; \<open>peer_gone\<close> says that the peer can no longer be reached, in which case
  a send raises.
\<close>

record websocket =
  accepted :: bool
  outbox :: "json list"
  closed :: bool
  peer_gone :: bool

definition new_websocket :: "bool \<Rightarrow> websocket" where
  "new_websocket gone = \<lparr>accepted = False, outbox = [], closed = False, peer_gone = gone\<rparr>"

definition ws_accept :: "websocket \<Rightarrow> websocket" where
  "ws_accept ws = ws\<lparr>accepted := True\<rparr>"

definition ws_close :: "websocket \<Rightarrow> websocket" where
  "ws_close ws = ws\<lparr>closed := True\<rparr>"

text \<open>\<open>await websocket.send_json(m)\<close>; \<open>None\<close> when it raises.\<close>

definition send_json :: "websocket \<Rightarrow> json \<Rightarrow> websocket option" where
  "send_json ws m =
     (if peer_gone ws \<or> closed ws then None else Some (ws\<lparr>outbox := outbox ws @ [m]\<rparr>))"

text \<open>The message \<open>{"type": tag, "data": text}\<close>.\<close>

definition tagged :: "pystr \<Rightarrow> pystr \<Rightarrow> json" where
  "tagged tag data = JObject [(str ''type'', JString tag), (str ''data'', JString data)]"

datatype signal = SIGTERM | SIGKILL

text \<open>
  The process as the handlers see it. \<open>stdin_closed\<close> is set by \<open>process.stdin.close()\<close>;
  \<open>stdin_broken\<close> says that the tool itself has closed its standard input.
\<close>

record process =
  argv :: "pystr list"
  returncode :: "int option"
  has_stdin :: bool
  stdin_closed :: bool
  stdin_broken :: bool
  stdin_written :: "byte list list"
  signals :: "signal list"

definition spawn :: "pystr list \<Rightarrow> bool \<Rightarrow> process" where
  "spawn args with_stdin =
     \<lparr>argv = args, returncode = None, has_stdin = with_stdin, stdin_closed = False,
      stdin_broken = False, stdin_written = [], signals = []\<rparr>"

text \<open>
  How the operating-system process answers the signals: after how many milliseconds, and
  with which status, it exits once SIGTERM is sent (\<open>None\<close>: it does not exit on SIGTERM),
  and after how many milliseconds its exit is collected once SIGKILL is sent (\<open>None\<close>:
  never).
\<close>

record reaction =
  exit_after_term :: "(nat \<times> int) option"
  exit_after_kill :: "nat option"

text \<open>
  \<open>process.kill()\<close> followed by \<open>await process.wait()\<close>, which has no timeout. The
  result is the process, and the time spent since SIGTERM was sent, in milliseconds, when
  the wait returns; the time is \<open>None\<close> when the wait never returns.
\<close>

definition kill_and_wait :: "reaction \<Rightarrow> process \<Rightarrow> process \<times> nat option" where
  "kill_and_wait r p =
     (let p' = p\<lparr>signals := signals p @ [SIGKILL]\<rparr> in
      case exit_after_kill r of
        None \<Rightarrow> (p', None)
      | Some d \<Rightarrow> (p'\<lparr>returncode := Some (- 9)\<rparr>, Some (5000 + d)))"

text \<open>\<open>process.terminate()\<close>.\<close>

definition terminate :: "process \<Rightarrow> process" where
  "terminate p = p\<lparr>signals := signals p @ [SIGTERM]\<rparr>"

text \<open>
  What follows \<open>process.terminate()\<close> in both handlers:
  \<open>await asyncio.wait_for(process.wait(), timeout=5.0)\<close>, and on \<open>TimeoutError\<close> the
  kill and the wait above. The time is that spent since SIGTERM was sent.
\<close>

definition wait_for_exit :: "reaction \<Rightarrow> process \<Rightarrow> process \<times> nat option" where
  "wait_for_exit r p =
     (case exit_after_term r of
        None \<Rightarrow> kill_and_wait r p
      | Some (d, code) \<Rightarrow>
          if d \<le> 5000 then (p\<lparr>returncode := Some code\<rparr>, Some d)
          else kill_and_wait r p)"

text \<open>The process exits by itself with a status, if it has not exited before.\<close>

definition process_exits :: "int \<Rightarrow> process \<Rightarrow> process" where
  "process_exits code p = (if returncode p = None then p\<lparr>returncode := Some code\<rparr> else p)"

section \<open>The tasks of a session\<close>

text \<open>
  What one \<open>read(1024)\<close> or \<open>readline()\<close> on an output pipe results in: bytes, the
  empty bytes at the end of the stream, or an exception.
\<close>

datatype read_result = Data "byte list" | ReadRaises

datatype loop_step = Continue | Break

text \<open>
  The body of the \<open>while True\<close> loop of \<open>handle_stdout\<close> and \<open>handle_stderr\<close>, in
  both handlers, after the read has returned: every exception, of the read, of \<open>decode\<close>
  or of \<open>send_json\<close>, ends the loop.
\<close>

definition forward_output :: "pystr \<Rightarrow> read_result \<Rightarrow> websocket \<Rightarrow> loop_step \<times> websocket" where
  "forward_output tag r ws =
     (case r of
        ReadRaises \<Rightarrow> (Break, ws)
      | Data data \<Rightarrow>
          if data = [] then (Break, ws)
          else
            (case utf8_decode data of
               None \<Rightarrow> (Break, ws)
             | Some text \<Rightarrow>
                 (case send_json ws (tagged tag text) of
                    None \<Rightarrow> (Break, ws)
                  | Some ws' \<Rightarrow> (Continue, ws'))))"

text \<open>
  A reader run on its own against the script of its pipe. \<open>Returned\<close>: the coroutine has
  ended; \<open>Suspended\<close>: it waits in a read that never returns.
\<close>

datatype task_result = Returned | Suspended

fun reader :: "pystr \<Rightarrow> read_result list \<Rightarrow> websocket \<Rightarrow> task_result \<times> websocket" where
  "reader tag [] ws = (Suspended, ws)"
| "reader tag (r # rs) ws =
     (case forward_output tag r ws of
        (Break, ws') \<Rightarrow> (Returned, ws')
      | (Continue, ws') \<Rightarrow> reader tag rs ws')"

definition handle_stdout :: "read_result list \<Rightarrow> websocket \<Rightarrow> task_result \<times> websocket" where
  "handle_stdout = reader (str ''stdout'')"

definition handle_stderr :: "read_result list \<Rightarrow> websocket \<Rightarrow> task_result \<times> websocket" where
  "handle_stderr = reader (str ''stderr'')"

text \<open>
  \<open>process.stdin.write(b)\<close> followed by \<open>await process.stdin.drain()\<close>; \<open>None\<close> when
  an exception is raised: there is no pipe, the handler has closed the pipe, the tool has
  closed its end of it, or the process is gone.
\<close>

definition stdin_write :: "process \<Rightarrow> byte list \<Rightarrow> process option" where
  "stdin_write p b =
     (if has_stdin p \<and> \<not> stdin_closed p \<and> \<not> stdin_broken p \<and> returncode p = None
      then Some (p\<lparr>stdin_written := stdin_written p @ [b]\<rparr>) else None)"

text \<open>
  What one \<open>receive_json()\<close> results in: \<open>WebSocketDisconnect\<close>, another exception (the
  frame is not text, or the text is not JSON), or the decoded value.
\<close>

datatype receive_result = Disconnect | ReceiveRaises | Message json

text \<open>\<open>message.get(key, default)\<close> on a decoded JSON object.\<close>

definition dict_get :: "(pystr \<times> json) list \<Rightarrow> pystr \<Rightarrow> json \<Rightarrow> json" where
  "dict_get kv key dflt = (case map_of kv key of None \<Rightarrow> dflt | Some v \<Rightarrow> v)"

text \<open>
  The body of the loop of \<open>handle_websocket_input\<close> after \<open>receive_json\<close>. A value
  that is not an object has no \<open>get\<close>, and a \<open>data\<close> that is not a string has no
  \<open>encode\<close>: both raise \<open>AttributeError\<close>, and every exception ends the loop.
  \<open>message.get("type")\<close> has the default \<open>None\<close>.
\<close>

fun handle_message :: "receive_result \<Rightarrow> process \<Rightarrow> loop_step \<times> process" where
  "handle_message Disconnect p = (Break, p)"
| "handle_message ReceiveRaises p = (Break, p)"
| "handle_message (Message (JObject kv)) p =
     (if dict_get kv (str ''type'') JNull = JString (str ''stdin'') then
        (case dict_get kv (str ''data'') (JString []) of
           JString data \<Rightarrow>
             (case utf8_encode data of
                None \<Rightarrow> (Break, p)
              | Some b \<Rightarrow>
                  (case stdin_write p b of
                     None \<Rightarrow> (Break, p)
                   | Some p' \<Rightarrow> (Continue, p')))
         | _ \<Rightarrow> (Break, p))
      else (Continue, p))"
| "handle_message (Message _) p = (Break, p)"

section \<open>The terminal session (terminal_websocket)\<close>

datatype task_state = Pending | Done | Cancelled

record terminal_session =
  ws :: websocket
  proc :: process
  stdout_reads :: "read_result list"
  stderr_reads :: "read_result list"
  inbound :: "receive_result list"
  stdout_task :: task_state
  stderr_task :: task_state
  input_task :: task_state

text \<open>
  One step of a task: the next iteration of its loop, from the return of its awaited read
  or receive to the next one. A task that is not pending, or whose script has run out,
  does nothing.
\<close>

definition stdout_step :: "terminal_session \<Rightarrow> terminal_session" where
  "stdout_step s =
     (if stdout_task s = Pending then
        (case stdout_reads s of
           [] \<Rightarrow> s
         | r # rs \<Rightarrow>
             (case forward_output (str ''stdout'') r (ws s) of
                (Continue, w) \<Rightarrow> s\<lparr>ws := w, stdout_reads := rs\<rparr>
              | (Break, w) \<Rightarrow> s\<lparr>ws := w, stdout_reads := rs, stdout_task := Done\<rparr>))
      else s)"

definition stderr_step :: "terminal_session \<Rightarrow> terminal_session" where
  "stderr_step s =
     (if stderr_task s = Pending then
        (case stderr_reads s of
           [] \<Rightarrow> s
         | r # rs \<Rightarrow>
             (case forward_output (str ''stderr'') r (ws s) of
                (Continue, w) \<Rightarrow> s\<lparr>ws := w, stderr_reads := rs\<rparr>
              | (Break, w) \<Rightarrow> s\<lparr>ws := w, stderr_reads := rs, stderr_task := Done\<rparr>))
      else s)"

text \<open>Once the disconnect of the peer has been received, sends raise.\<close>

definition note_disconnect :: "receive_result \<Rightarrow> websocket \<Rightarrow> websocket" where
  "note_disconnect m w = (if m = Disconnect then w\<lparr>peer_gone := True\<rparr> else w)"

definition input_step :: "terminal_session \<Rightarrow> terminal_session" where
  "input_step s =
     (if input_task s = Pending then
        (case inbound s of
           [] \<Rightarrow> s
         | m # ms \<Rightarrow>
             (case handle_message m (proc s) of
                (Continue, p) \<Rightarrow> s\<lparr>proc := p, inbound := ms\<rparr>
              | (Break, p) \<Rightarrow>
                  s\<lparr>ws := note_disconnect m (ws s), proc := p, inbound := ms,
                    input_task := Done\<rparr>))
      else s)"

datatype task_id = StdoutTask | StderrTask | InputTask

fun run_task :: "task_id \<Rightarrow> terminal_session \<Rightarrow> terminal_session" where
  "run_task StdoutTask s = stdout_step s"
| "run_task StderrTask s = stderr_step s"
| "run_task InputTask s = input_step s"

text \<open>
  An event of the schedule: a task takes a step, the process exits by itself with a
  status, or the tool closes its standard input.
\<close>

datatype event = Run task_id | ProcessExits int | ProcessClosesStdin

fun apply_event :: "event \<Rightarrow> terminal_session \<Rightarrow> terminal_session" where
  "apply_event (Run t) s = run_task t s"
| "apply_event (ProcessExits code) s = s\<lparr>proc := process_exits code (proc s)\<rparr>"
| "apply_event ProcessClosesStdin s = s\<lparr>proc := (proc s)\<lparr>stdin_broken := True\<rparr>\<rparr>"

definition any_done :: "terminal_session \<Rightarrow> bool" where
  "any_done s \<longleftrightarrow> stdout_task s = Done \<or> stderr_task s = Done \<or> input_task s = Done"

text \<open>
  \<open>await asyncio.wait(tasks, return_when=asyncio.FIRST_COMPLETED)\<close>: the events of the
  schedule happen until a task is done. The handler is then woken, but it does not run at
  once: \<open>delay\<close> is the number of further events that happen before it runs again, in
  which other tasks can take steps and finish as well. The result is \<open>True\<close> with the
  session in which the handler goes on, or \<open>False\<close> with the session at the end of the
  schedule when no task is done by then and the wait has not returned.
\<close>

fun wait_first_completed :: "nat \<Rightarrow> event list \<Rightarrow> terminal_session \<Rightarrow> bool \<times> terminal_session" where
  "wait_first_completed delay [] s = (any_done s, s)"
| "wait_first_completed delay (e # es) s =
     (if any_done s then (True, fold apply_event (take delay (e # es)) s)
      else wait_first_completed delay es (apply_event e s))"

text \<open>
  \<open>if not task.done(): task.cancel(); await task\<close> for one task. A task that is pending
  is cancelled: \<open>CancelledError\<close> is raised at its \<open>await\<close>, and since it is not an
  \<open>Exception\<close> no \<open>except\<close> clause of the task catches it. While the handler awaits the
  cancelled task the other tasks go on: \<open>during t\<close> lists the steps they take in that
  time.
\<close>

fun task_state_of :: "task_id \<Rightarrow> terminal_session \<Rightarrow> task_state" where
  "task_state_of StdoutTask s = stdout_task s"
| "task_state_of StderrTask s = stderr_task s"
| "task_state_of InputTask s = input_task s"

fun cancel :: "task_id \<Rightarrow> terminal_session \<Rightarrow> terminal_session" where
  "cancel StdoutTask s = s\<lparr>stdout_task := Cancelled\<rparr>"
| "cancel StderrTask s = s\<lparr>stderr_task := Cancelled\<rparr>"
| "cancel InputTask s = s\<lparr>input_task := Cancelled\<rparr>"

definition cancel_and_await ::
  "(task_id \<Rightarrow> task_id list) \<Rightarrow> task_id \<Rightarrow> terminal_session \<Rightarrow> terminal_session" where
  "cancel_and_await during t s =
     (if task_state_of t s = Pending then fold run_task (during t) (cancel t s) else s)"

text \<open>
  The loop \<open>for task in tasks\<close> over the stdout reader, the stderr reader and the inbound
  relay, in this order.
\<close>

definition cancel_remaining ::
  "(task_id \<Rightarrow> task_id list) \<Rightarrow> terminal_session \<Rightarrow> terminal_session" where
  "cancel_remaining during s =
     cancel_and_await during InputTask
       (cancel_and_await during StderrTask (cancel_and_await during StdoutTask s))"

text \<open>
  The \<open>finally\<close> block of \<open>terminal_websocket\<close>. When the process has no return code
  its standard input is closed and SIGTERM is sent; while the handler then waits for the
  process the tasks go on: \<open>during_wait\<close> lists the steps they take in that time. The
  result is the session, together with the time for which the handler has waited for the
  process when the block is left, or with \<open>None\<close> when the handler waits for the process
  for ever.
\<close>

definition terminal_finally ::
  "reaction \<Rightarrow> task_id list \<Rightarrow> (task_id \<Rightarrow> task_id list) \<Rightarrow> terminal_session \<Rightarrow>
   terminal_session \<times> nat option" where
  "terminal_finally r during_wait during_cancel s =
     (if returncode (proc s) = None then
        (let p0 = (if has_stdin (proc s) then (proc s)\<lparr>stdin_closed := True\<rparr> else proc s);
             s1 = fold run_task during_wait (s\<lparr>proc := terminate p0\<rparr>)
         in case wait_for_exit r (proc s1) of
              (p, None) \<Rightarrow> (s1\<lparr>proc := p\<rparr>, None)
            | (p, Some t) \<Rightarrow> (cancel_remaining during_cancel (s1\<lparr>proc := p\<rparr>), Some t))
      else (cancel_remaining during_cancel s, Some 0))"

text \<open>
  The surroundings of one terminal session: whether the peer is already gone when the
  handler first sends, the text of the exception if starting the process raises, how the
  process answers signals, the three scripts, the schedule with the delay of the wake-up,
  and the steps that the tasks take while the handler waits in its \<open>finally\<close> block.
\<close>

record terminal_world =
  peer_gone_early :: bool
  spawn_error :: "pystr option"
  signal_reaction :: reaction
  stdout_script :: "read_result list"
  stderr_script :: "read_result list"
  inbound_script :: "receive_result list"
  schedule :: "event list"
  wakeup_delay :: nat
  schedule_during_cleanup :: "task_id list"
  schedule_during_cancel :: "task_id \<Rightarrow> task_id list"

text \<open>
  How a handler stands at the end of what the schedule describes: it has returned, it has
  raised, or it is suspended in an \<open>await\<close>. \<open>teardown_wait\<close> is the time for which
  the \<open>finally\<close> block has waited for the process, when the block has been left.
\<close>

datatype outcome = HandlerReturned | HandlerRaised | HandlerSuspended

record terminal_result =
  outcome :: outcome
  final_ws :: websocket
  spawned :: "pystr list list"
  final_session :: "terminal_session option"
  teardown_wait :: "nat option"

text \<open>
  The session once the process is started and the three tasks are created: the arguments
  of the process, and the session in which no task has taken a step.
\<close>

definition terminal_args :: "system \<Rightarrow> pystr \<Rightarrow> pystr list" where
  "terminal_args sys env_id = [container_use_bin sys, str ''terminal'', env_id]"

definition terminal_start :: "system \<Rightarrow> terminal_world \<Rightarrow> pystr \<Rightarrow> terminal_session" where
  "terminal_start sys w env_id =
     \<lparr>ws = ws_accept (new_websocket (peer_gone_early w)),
      proc = spawn (terminal_args sys env_id) True,
      stdout_reads = stdout_script w, stderr_reads = stderr_script w,
      inbound = inbound_script w,
      stdout_task = Pending, stderr_task = Pending, input_task = Pending\<rparr>"

definition terminal_websocket ::
  "system \<Rightarrow> terminal_world \<Rightarrow> pystr \<Rightarrow> terminal_result" where
  "terminal_websocket sys w env_id =
     (let ws0 = ws_accept (new_websocket (peer_gone_early w)) in
      if env_id = [] then
        (case send_json ws0 (JObject [(str ''error'', JString (str ''Environment ID is required''))]) of
           None \<Rightarrow>
             \<lparr>outcome = HandlerRaised, final_ws = ws0, spawned = [], final_session = None,
              teardown_wait = None\<rparr>
         | Some ws1 \<Rightarrow>
             \<lparr>outcome = HandlerReturned, final_ws = ws_close ws1, spawned = [],
              final_session = None, teardown_wait = None\<rparr>)
      else
        (case spawn_error w of
           Some e \<Rightarrow>
             \<lparr>outcome = HandlerReturned,
              final_ws =
                (case send_json ws0 (tagged (str ''error'') (str ''Terminal error: '' @ e)) of
                   None \<Rightarrow> ws0
                 | Some ws1 \<Rightarrow> ws1),
              spawned = [], final_session = None, teardown_wait = None\<rparr>
         | None \<Rightarrow>
             (let args = terminal_args sys env_id
              in case wait_first_completed (wakeup_delay w) (schedule w)
                        (terminal_start sys w env_id) of
                   (False, s1) \<Rightarrow>
                     \<lparr>outcome = HandlerSuspended, final_ws = ws s1, spawned = [args],
                      final_session = Some s1, teardown_wait = None\<rparr>
                 | (True, s1) \<Rightarrow>
                     (case terminal_finally (signal_reaction w) (schedule_during_cleanup w)
                             (schedule_during_cancel w) s1 of
                        (s2, waited) \<Rightarrow>
                          \<lparr>outcome =
                             (if waited = None then HandlerSuspended else HandlerReturned),
                           final_ws = ws s2, spawned = [args], final_session = Some s2,
                           teardown_wait = waited\<rparr>))))"

section \<open>The watch session (watch_environments_websocket)\<close>

text \<open>
  What one \<open>receive_text()\<close> results in: \<open>WebSocketDisconnect\<close>, another exception
  with its text (the frame is not a text frame), or the text received.
\<close>

datatype text_result = TextDisconnect | TextRaises pystr | Text pystr

record watch_session =
  wws :: websocket
  wproc :: process
  wstdout_reads :: "read_result list"
  wstderr_reads :: "read_result list"
  winbound :: "text_result list"
  wstdout_task :: task_state
  wstderr_task :: task_state

definition watch_stdout_step :: "watch_session \<Rightarrow> watch_session" where
  "watch_stdout_step s =
     (if wstdout_task s = Pending then
        (case wstdout_reads s of
           [] \<Rightarrow> s
         | r # rs \<Rightarrow>
             (case forward_output (str ''stdout'') r (wws s) of
                (Continue, w) \<Rightarrow> s\<lparr>wws := w, wstdout_reads := rs\<rparr>
              | (Break, w) \<Rightarrow> s\<lparr>wws := w, wstdout_reads := rs, wstdout_task := Done\<rparr>))
      else s)"

definition watch_stderr_step :: "watch_session \<Rightarrow> watch_session" where
  "watch_stderr_step s =
     (if wstderr_task s = Pending then
        (case wstderr_reads s of
           [] \<Rightarrow> s
         | r # rs \<Rightarrow>
             (case forward_output (str ''stderr'') r (wws s) of
                (Continue, w) \<Rightarrow> s\<lparr>wws := w, wstderr_reads := rs\<rparr>
              | (Break, w) \<Rightarrow> s\<lparr>wws := w, wstderr_reads := rs, wstderr_task := Done\<rparr>))
      else s)"

text \<open>
  An event of the schedule of a watch session: a reader takes a step, the handler itself
  takes a step of its receive loop, or the process exits by itself.
\<close>

datatype watch_event = RunStdout | RunStderr | RunHandler | WatchedProcessExits int

text \<open>How the handler leaves \<open>while True: await websocket.receive_text()\<close>.\<close>

datatype loop_exit = ByDisconnect | ByException pystr

text \<open>
  The receive loop together with the readers, along the schedule. The loop is left on
  \<open>WebSocketDisconnect\<close> (\<open>break\<close>) or on another exception of \<open>receive_text\<close>;
  a text that is received is dropped and the loop goes on. When the schedule ends with the
  handler still in the loop the result is \<open>None\<close>.
\<close>

fun receive_loop :: "watch_event list \<Rightarrow> watch_session \<Rightarrow> loop_exit option \<times> watch_session" where
  "receive_loop [] s = (None, s)"
| "receive_loop (RunStdout # es) s = receive_loop es (watch_stdout_step s)"
| "receive_loop (RunStderr # es) s = receive_loop es (watch_stderr_step s)"
| "receive_loop (WatchedProcessExits code # es) s =
     receive_loop es (s\<lparr>wproc := process_exits code (wproc s)\<rparr>)"
| "receive_loop (RunHandler # es) s =
     (case winbound s of
        [] \<Rightarrow> receive_loop es s
      | Text t # ms \<Rightarrow> receive_loop es (s\<lparr>winbound := ms\<rparr>)
      | TextDisconnect # ms \<Rightarrow>
          (Some ByDisconnect, s\<lparr>wws := (wws s)\<lparr>peer_gone := True\<rparr>, winbound := ms\<rparr>)
      | TextRaises e # ms \<Rightarrow> (Some (ByException e), s\<lparr>winbound := ms\<rparr>))"

text \<open>A step of one of the two readers of a watch session.\<close>

datatype reader_id = StdoutReader | StderrReader

fun run_reader :: "reader_id \<Rightarrow> watch_session \<Rightarrow> watch_session" where
  "run_reader StdoutReader s = watch_stdout_step s"
| "run_reader StderrReader s = watch_stderr_step s"

text \<open>
  The loop \<open>for task in tasks: task.cancel(); await task\<close> over the stdout reader and
  the stderr reader. Cancelling a task that is done changes nothing, and awaiting it does
  not suspend the handler; while the handler awaits the cancelled stdout reader the stderr
  reader goes on, \<open>during\<close> lists the steps taken in that time.
\<close>

definition watch_cancel_tasks :: "reader_id list \<Rightarrow> watch_session \<Rightarrow> watch_session" where
  "watch_cancel_tasks during s =
     (let s1 = (if wstdout_task s = Pending
                then fold run_reader during (s\<lparr>wstdout_task := Cancelled\<rparr>) else s)
      in if wstderr_task s1 = Pending then s1\<lparr>wstderr_task := Cancelled\<rparr> else s1)"

text \<open>
  The \<open>finally\<close> block of the watch handler: when the process has no return code
  SIGTERM is sent and the handler waits for the process, while the readers go on
  (\<open>during_wait\<close> lists their steps in that time); then the loop that cancels. The result
  is the session, together with the time for which the handler has waited for the process
  when the block is left, or with \<open>None\<close> when the handler waits for the process for ever.
\<close>

definition watch_finally ::
  "reaction \<Rightarrow> reader_id list \<Rightarrow> reader_id list \<Rightarrow> watch_session \<Rightarrow> watch_session \<times> nat option" where
  "watch_finally r during_wait during_cancel s =
     (if returncode (wproc s) = None then
        (let s1 = fold run_reader during_wait (s\<lparr>wproc := terminate (wproc s)\<rparr>)
         in case wait_for_exit r (wproc s1) of
              (p, None) \<Rightarrow> (s1\<lparr>wproc := p\<rparr>, None)
            | (p, Some t) \<Rightarrow> (watch_cancel_tasks during_cancel (s1\<lparr>wproc := p\<rparr>), Some t))
      else (watch_cancel_tasks during_cancel s, Some 0))"

record watch_world =
  watch_peer_gone_early :: bool
  watch_spawn_error :: "pystr option"
  watch_reaction :: reaction
  watch_stdout_script :: "read_result list"
  watch_stderr_script :: "read_result list"
  watch_inbound_script :: "text_result list"
  watch_schedule :: "watch_event list"
  watch_during_cleanup :: "reader_id list"
  watch_during_cancel :: "reader_id list"

record watch_result =
  watch_outcome :: outcome
  watch_final_ws :: websocket
  watch_spawned :: "pystr list list"
  torn_down :: bool
  watch_final_session :: "watch_session option"
  watch_teardown_wait :: "nat option"

text \<open>
  \<open>torn_down\<close> says that the \<open>finally\<close> block has been entered. An exception that
  left the receive loop reaches \<open>except Exception\<close> after the block, where its text is
  sent to the peer if that is still possible.
\<close>

definition watch_args :: "system \<Rightarrow> pystr list" where
  "watch_args sys = [container_use_bin sys, str ''watch'']"

definition watch_start :: "system \<Rightarrow> watch_world \<Rightarrow> watch_session" where
  "watch_start sys w =
     \<lparr>wws = ws_accept (new_websocket (watch_peer_gone_early w)),
      wproc = spawn (watch_args sys) False,
      wstdout_reads = watch_stdout_script w, wstderr_reads = watch_stderr_script w,
      winbound = watch_inbound_script w,
      wstdout_task = Pending, wstderr_task = Pending\<rparr>"

definition watch_environments_websocket :: "system \<Rightarrow> watch_world \<Rightarrow> watch_result" where
  "watch_environments_websocket sys w =
     (let ws0 = ws_accept (new_websocket (watch_peer_gone_early w)) in
      case watch_spawn_error w of
        Some e \<Rightarrow>
          \<lparr>watch_outcome = HandlerReturned,
           watch_final_ws =
             (case send_json ws0 (tagged (str ''error'') (str ''WebSocket error: '' @ e)) of
                None \<Rightarrow> ws0
              | Some ws1 \<Rightarrow> ws1),
           watch_spawned = [], torn_down = False, watch_final_session = None,
           watch_teardown_wait = None\<rparr>
      | None \<Rightarrow>
          (let args = watch_args sys
           in case receive_loop (watch_schedule w) (watch_start sys w) of
                (None, s1) \<Rightarrow>
                  \<lparr>watch_outcome = HandlerSuspended, watch_final_ws = wws s1,
                   watch_spawned = [args], torn_down = False, watch_final_session = Some s1,
                   watch_teardown_wait = None\<rparr>
              | (Some how, s1) \<Rightarrow>
                  (case watch_finally (watch_reaction w) (watch_during_cleanup w)
                          (watch_during_cancel w) s1 of
                     (s2, waited) \<Rightarrow>
                       \<lparr>watch_outcome =
                          (if waited = None then HandlerSuspended else HandlerReturned),
                        watch_final_ws =
                          (if waited = None then wws s2
                           else
                             (case how of
                                ByDisconnect \<Rightarrow> wws s2
                              | ByException e \<Rightarrow>
                                  (case send_json (wws s2)
                                          (tagged (str ''error'') (str ''WebSocket error: '' @ e)) of
                                     None \<Rightarrow> wws s2
                                   | Some ws1 \<Rightarrow> ws1))),
                        watch_spawned = [args], torn_down = True,
                        watch_final_session = Some s2, watch_teardown_wait = waited\<rparr>)))"

section \<open>Notions used to state the properties of the sessions\<close>

text \<open>
  The process exits within the five seconds that the cleanup waits after SIGTERM.
\<close>

definition exits_in_time :: "reaction \<Rightarrow> bool" where
  "exits_in_time r = (case exit_after_term r of None \<Rightarrow> False | Some (d, code) \<Rightarrow> d \<le> 5000)"

text \<open>
  The teardown of a session as it is claimed, for a process that is running when the
  teardown starts: \<open>p\<close> is the process at the end, \<open>handler\<close> says how the handler
  stands and \<open>waited\<close> is the time that the teardown has waited for the process. SIGTERM
  is sent. If the process exits within the five seconds, no other signal is sent and the
  handler goes on after at most 5000 ms. If not, SIGKILL is sent after the 5000 ms and the
  handler waits with no bound: it returns once the process is collected, and when the
  process is never collected the handler stays suspended.
\<close>

definition reaped_as_claimed :: "reaction \<Rightarrow> process \<Rightarrow> outcome \<Rightarrow> nat option \<Rightarrow> bool" where
  "reaped_as_claimed r p handler waited \<longleftrightarrow>
     (if exits_in_time r then
        signals p = [SIGTERM] \<and> returncode p \<noteq> None \<and> handler = HandlerReturned \<and>
        (case waited of None \<Rightarrow> False | Some t \<Rightarrow> t \<le> 5000)
      else
        signals p = [SIGTERM, SIGKILL] \<and>
        (case exit_after_kill r of
           Some d \<Rightarrow>
             returncode p \<noteq> None \<and> handler = HandlerReturned \<and> waited = Some (5000 + d)
         | None \<Rightarrow> returncode p = None \<and> handler = HandlerSuspended \<and> waited = None))"

text \<open>
  The text of what a read gives when it gives bytes that are not empty and are valid UTF-8.
\<close>

fun decoded :: "read_result \<Rightarrow> pystr option" where
  "decoded ReadRaises = None"
| "decoded (Data d) = (if d = [] then None else utf8_decode d)"

text \<open>
  The kinds of an inbound event of the terminal channel: a JSON object tagged as a stdin
  command, any other JSON object, the disconnect of the peer, and the malformed rest (a
  frame that is not JSON text, or JSON that is not an object).
\<close>

datatype message_kind = StdinCommand | OtherObject | PeerDisconnect | Malformed

fun kind_of :: "receive_result \<Rightarrow> message_kind" where
  "kind_of Disconnect = PeerDisconnect"
| "kind_of ReceiveRaises = Malformed"
| "kind_of (Message (JObject kv)) =
     (if dict_get kv (str ''type'') JNull = JString (str ''stdin'') then StdinCommand
      else OtherObject)"
| "kind_of (Message _) = Malformed"

fun is_text :: "text_result \<Rightarrow> bool" where
  "is_text (Text t) = True"
| "is_text _ = False"

section \<open>Example surroundings\<close>

definition example_system :: system where
  "example_system = system_with (Completed [] [] (Some 0)) (\<lambda>e. [])"

text \<open>A process that exits 10 ms after SIGTERM, and one that ignores SIGTERM.\<close>

definition obedient :: reaction where
  "obedient = \<lparr>exit_after_term = Some (10, - 15), exit_after_kill = Some 1\<rparr>"

definition stubborn :: reaction where
  "stubborn = \<lparr>exit_after_term = None, exit_after_kill = Some 1\<rparr>"

definition open_websocket :: websocket where
  "open_websocket = ws_accept (new_websocket False)"

text \<open>
  A terminal session in which nothing comes from the process and the peer sends the given
  inbound events, each taken up by one step of the inbound relay.
\<close>

definition inbound_only :: "receive_result list \<Rightarrow> terminal_world" where
  "inbound_only ms =
     \<lparr>peer_gone_early = False, spawn_error = None, signal_reaction = obedient,
      stdout_script = [], stderr_script = [], inbound_script = ms,
      schedule = map (\<lambda>m. Run InputTask) ms, wakeup_delay = 0,
      schedule_during_cleanup = [], schedule_during_cancel = (\<lambda>t. [])\<rparr>"

text \<open>
  A watch session whose process writes \<open>line1\<close> and a line feed to stdout and exits, so
  that both pipes reach their end, under a given schedule and with given inbound events.
\<close>

definition line1_world :: "text_result list \<Rightarrow> watch_event list \<Rightarrow> watch_world" where
  "line1_world ms sched =
     \<lparr>watch_peer_gone_early = False, watch_spawn_error = None, watch_reaction = obedient,
      watch_stdout_script = [Data (bytes_of ''line1\<newline>''), Data []],
      watch_stderr_script = [Data []],
      watch_inbound_script = ms, watch_schedule = sched,
      watch_during_cleanup = [], watch_during_cancel = []\<rparr>"

text \<open>
  A terminal session whose process exits by itself, upon which both output pipes reach
  their end: the stdout reader finishes, and the stderr reader finishes as well before the
  handler runs again. The peer stays connected and sends nothing.
\<close>

definition exit_world :: terminal_world where
  "exit_world =
     \<lparr>peer_gone_early = False, spawn_error = None, signal_reaction = obedient,
      stdout_script = [Data []], stderr_script = [Data []], inbound_script = [],
      schedule = [ProcessExits 0, Run StdoutTask, Run StderrTask], wakeup_delay = 1,
      schedule_during_cleanup = [], schedule_during_cancel = (\<lambda>t. [])\<rparr>"

text \<open>
  A terminal session in which the peer disconnects while the process keeps writing: the
  stderr reader reaches the end of its pipe while the handler waits for the process, and
  the stdout reader is still reading when it is cancelled.
\<close>

definition busy_world :: terminal_world where
  "busy_world =
     \<lparr>peer_gone_early = False, spawn_error = None, signal_reaction = stubborn,
      stdout_script = [Data (bytes_of ''a''), Data (bytes_of ''b'')], stderr_script = [Data []],
      inbound_script = [Disconnect],
      schedule = [Run StdoutTask, Run InputTask], wakeup_delay = 0,
      schedule_during_cleanup = [StderrTask], schedule_during_cancel = (\<lambda>t. [])\<rparr>"

text \<open>A watch session whose peer disconnects and whose process ignores SIGTERM.\<close>

definition stubborn_watch :: watch_world where
  "stubborn_watch = (line1_world [TextDisconnect] [RunStdout, RunHandler])\<lparr>watch_reaction := stubborn\<rparr>"

section \<open>Properties of the listing parser\<close>

lemma dropWhile_hd_id: "xs \<noteq> [] \<Longrightarrow> \<not> P (hd xs) \<Longrightarrow> dropWhile P xs = xs"
  by (cases xs) auto

lemma py_strip_trimmed: "trimmed s \<Longrightarrow> py_strip s = s"
proof -
  assume t: "trimmed s"
  then have 1: "dropWhile isspace s = s" by (simp add: trimmed_def dropWhile_hd_id)
  from t have "rev s \<noteq> []" "\<not> isspace (hd (rev s))" by (simp_all add: trimmed_def hd_rev)
  then have 2: "dropWhile isspace (rev s) = rev s" by (rule dropWhile_hd_id)
  show ?thesis by (simp add: py_strip_def 1 2)
qed

lemma last_dropWhile: "dropWhile P xs \<noteq> [] \<Longrightarrow> last (dropWhile P xs) = last xs"
  by (induction xs) (auto split: if_splits)

lemma trimmed_py_strip: "py_strip s \<noteq> [] \<Longrightarrow> trimmed (py_strip s)"
proof -
  assume ne: "py_strip s \<noteq> []"
  define a where "a = dropWhile isspace s"
  define b where "b = dropWhile isspace (rev a)"
  have res: "py_strip s = rev b" by (simp add: py_strip_def a_def b_def)
  with ne have bne: "b \<noteq> []" by simp
  then have hb: "\<not> isspace (hd b)" unfolding b_def by (rule hd_dropWhile)
  from bne have ane: "a \<noteq> []" unfolding b_def by auto
  then have ha: "\<not> isspace (hd a)" unfolding a_def by (rule hd_dropWhile)
  have "last b = last (rev a)" using bne unfolding b_def by (rule last_dropWhile)
  then have "last b = hd a" using ane by (simp add: last_rev)
  with ha hb bne show ?thesis by (simp add: res trimmed_def hd_rev last_rev)
qed

lemma re_split_trimmed:
  "cur @ rest \<noteq> [] \<Longrightarrow> \<not> isspace (last (cur @ rest)) \<Longrightarrow>
   (cur \<noteq> [] \<longrightarrow> \<not> isspace (hd cur)) \<Longrightarrow>
   (cur = [] \<longrightarrow> \<not> isspace (hd rest)) \<Longrightarrow>
   (cur \<noteq> [] \<and> isspace (last cur) \<longrightarrow> rest \<noteq> [] \<and> \<not> isspace (hd rest)) \<Longrightarrow>
   f \<in> set (re_split cur rest) \<Longrightarrow> trimmed f"
proof (induction cur rest rule: re_split.induct)
  case (1 cur)
  then show ?case by (auto simp: trimmed_def)
next
  case (2 cur c)
  then show ?case by (cases cur) (auto simp: trimmed_def)
next
  case (3 cur c d cs)
  show ?case
  proof (cases "isspace c \<and> isspace d")
    case True
    with 3(3-7) have cur: "trimmed cur" by (auto simp: trimmed_def)
    from True 3(4) have csne: "cs \<noteq> []" "\<not> isspace (last cs)" by (auto split: if_splits)
    then have dne: "dropWhile isspace cs \<noteq> []"
      by (metis dropWhile_eq_Nil_conv last_in_set)
    from 3(8) True have "f = cur \<or> f \<in> set (re_split [] (dropWhile isspace cs))" by simp
    then show ?thesis
    proof
      assume "f = cur" with cur show ?thesis by simp
    next
      assume fin: "f \<in> set (re_split [] (dropWhile isspace cs))"
      show ?thesis
      proof (rule 3(1)[OF True _ _ _ _ _ fin])
        show "[] @ dropWhile isspace cs \<noteq> []" using dne by simp
        show "\<not> isspace (last ([] @ dropWhile isspace cs))"
          using dne csne by (simp add: last_dropWhile)
        show "[] \<noteq> [] \<longrightarrow> \<not> isspace (hd [])" by simp
        show "[] = [] \<longrightarrow> \<not> isspace (hd (dropWhile isspace cs))"
          using dne by (simp add: hd_dropWhile)
        show "[] \<noteq> [] \<and> isspace (last []) \<longrightarrow>
              dropWhile isspace cs \<noteq> [] \<and> \<not> isspace (hd (dropWhile isspace cs))" by simp
      qed
    qed
  next
    case False
    from 3(8) False have fin: "f \<in> set (re_split (cur @ [c]) (d # cs))" by simp
    show ?thesis
    proof (rule 3(2)[OF False _ _ _ _ _ fin])
      show "(cur @ [c]) @ d # cs \<noteq> []" by simp
      show "\<not> isspace (last ((cur @ [c]) @ d # cs))" using 3(4) by simp
      show "cur @ [c] \<noteq> [] \<longrightarrow> \<not> isspace (hd (cur @ [c]))"
        using 3(5,6) by (cases cur) auto
      show "cur @ [c] = [] \<longrightarrow> \<not> isspace (hd (d # cs))" by simp
      show "cur @ [c] \<noteq> [] \<and> isspace (last (cur @ [c])) \<longrightarrow>
            d # cs \<noteq> [] \<and> \<not> isspace (hd (d # cs))" using False by simp
    qed
  qed
qed

lemma re_split_fields_trimmed:
  assumes "trimmed line" "f \<in> set (re_split [] line)"
  shows "trimmed f"
  using assms by (intro re_split_trimmed[of "[]" line f]) (auto simp: trimmed_def)


lemma re_split_weave:
  "\<exists>gaps. length gaps + 1 = length (re_split cur rest) \<and> list_all is_gap gaps \<and>
          weave (re_split cur rest) gaps = cur @ rest"
proof (induction cur rest rule: re_split.induct)
  case (1 cur)
  show ?case by (rule exI[of _ "[]"]) simp
next
  case (2 cur c)
  show ?case by (rule exI[of _ "[]"]) simp
next
  case (3 cur c d cs)
  show ?case
  proof (cases "isspace c \<and> isspace d")
    case True
    from 3(1)[OF True] obtain gaps where
      g: "length gaps + 1 = length (re_split [] (dropWhile isspace cs))"
         "list_all is_gap gaps"
         "weave (re_split [] (dropWhile isspace cs)) gaps = dropWhile isspace cs"
      by auto
    let ?g = "c # d # takeWhile isspace cs"
    have "is_gap ?g" using True by (simp add: is_gap_def list_all_iff) (meson set_takeWhileD)
    moreover have "weave (cur # re_split [] (dropWhile isspace cs)) (?g # gaps) = cur @ c # d # cs"
      using g(3) by simp
    ultimately show ?thesis
      using True g(1,2) by (intro exI[of _ "?g # gaps"]) simp
  next
    case False
    from 3(2)[OF False] False show ?thesis by auto
  qed
qed

lemma no_gap_snoc:
  "no_gap (xs @ [c]) \<longleftrightarrow> no_gap xs \<and> (xs = [] \<or> \<not> isspace (last xs) \<or> \<not> isspace c)"
  by (induction xs rule: no_gap.induct) auto

lemma re_split_no_gap:
  "no_gap cur \<Longrightarrow>
   (cur \<noteq> [] \<Longrightarrow> isspace (last cur) \<Longrightarrow> rest \<noteq> [] \<Longrightarrow> \<not> isspace (hd rest)) \<Longrightarrow>
   f \<in> set (re_split cur rest) \<Longrightarrow> no_gap f"
proof (induction cur rest rule: re_split.induct)
  case (1 cur)
  then show ?case by simp
next
  case (2 cur c)
  then show ?case by (auto simp: no_gap_snoc)
next
  case (3 cur c d cs)
  show ?case
  proof (cases "isspace c \<and> isspace d")
    case True
    with 3(5) have "f = cur \<or> f \<in> set (re_split [] (dropWhile isspace cs))" by simp
    then show ?thesis
    proof
      assume "f = cur" with 3(3) show ?thesis by simp
    next
      assume "f \<in> set (re_split [] (dropWhile isspace cs))"
      then show ?thesis by (intro 3(1)[OF True]) simp_all
    qed
  next
    case False
    with 3(5) have fin: "f \<in> set (re_split (cur @ [c]) (d # cs))" by simp
    show ?thesis
    proof (rule 3(2)[OF False _ _ fin])
      show "no_gap (cur @ [c])" using 3(3,4) by (auto simp: no_gap_snoc)
      show "\<not> isspace (hd (d # cs))" if "isspace (last (cur @ [c]))" using that False by simp
    qed
  qed
qed

lemma re_split_columns:
  assumes "trimmed row"
  shows "(\<exists>gaps. length gaps + 1 = length (re_split [] row) \<and> list_all is_gap gaps \<and>
                 weave (re_split [] row) gaps = row)
       \<and> (\<forall>f \<in> set (re_split [] row). trimmed f \<and> no_gap f)"
proof (intro conjI ballI)
  show "\<exists>gaps. length gaps + 1 = length (re_split [] row) \<and> list_all is_gap gaps \<and>
               weave (re_split [] row) gaps = row"
    using re_split_weave[of "[]" row] by simp
next
  fix f assume f: "f \<in> set (re_split [] row)"
  with assms show "trimmed f" by (rule re_split_fields_trimmed)
  from f show "no_gap f" by (intro re_split_no_gap[of "[]" row f]) simp_all
qed

declare parse_rows.simps [simp del]

lemma find_start_index_eq:
  "find_start_index i lines =
     (if \<exists>l \<in> set lines. is_header l
      then i + length (takeWhile (\<lambda>l. \<not> is_header l) lines) + 1 else 0)"
  by (induction lines arbitrary: i) (auto simp: is_header_def)

lemma drop_find_start_index:
  "drop (find_start_index 0 lines) lines = rows_after_header lines"
proof (cases "\<exists>l \<in> set lines. is_header l")
  case False
  then have "dropWhile (\<lambda>l. \<not> is_header l) lines = []" by simp
  moreover from False have "find_start_index 0 lines = 0"
    by (simp add: find_start_index_eq)
  ultimately show ?thesis by (simp only: rows_after_header_def list.case drop_0)
next
  case True
  then obtain h rest where hr: "dropWhile (\<lambda>l. \<not> is_header l) lines = h # rest"
    by (cases "dropWhile (\<lambda>l. \<not> is_header l) lines") auto
  have "drop (Suc (length (takeWhile (\<lambda>l. \<not> is_header l) lines))) lines =
        tl (dropWhile (\<lambda>l. \<not> is_header l) lines)"
    by (simp add: dropWhile_eq_drop drop_Suc tl_drop)
  moreover from True have "find_start_index 0 lines =
      Suc (length (takeWhile (\<lambda>l. \<not> is_header l) lines))"
    by (simp add: find_start_index_eq)
  ultimately show ?thesis by (simp only: rows_after_header_def hr list.case list.sel)
qed

lemma py_strip_field:
  assumes "trimmed line" "k < length (re_split [] line)"
  shows "py_strip (re_split [] line ! k) = re_split [] line ! k"
proof -
  from assms(2) have "re_split [] line ! k \<in> set (re_split [] line)" by simp
  with assms(1) have "trimmed (re_split [] line ! k)" by (rule re_split_fields_trimmed)
  then show ?thesis by (rule py_strip_trimmed)
qed

lemma parse_rows_end:
  "\<not> i < length lines \<Longrightarrow> parse_rows lines i environments = environments"
  by (subst parse_rows.simps) simp

lemma parse_rows_blank:
  "i < length lines \<Longrightarrow> py_strip (lines ! i) = [] \<Longrightarrow>
   parse_rows lines i environments = parse_rows lines (Suc i) environments"
  by (subst parse_rows.simps) simp

lemma parse_rows_short:
  "i < length lines \<Longrightarrow> py_strip (lines ! i) \<noteq> [] \<Longrightarrow>
   \<not> 4 \<le> length (re_split [] (py_strip (lines ! i))) \<Longrightarrow>
   parse_rows lines i environments = parse_rows lines (Suc i) environments"
  by (subst parse_rows.simps) (simp add: Let_def)

lemma parse_rows_env:
  assumes "i < length lines" "py_strip (lines ! i) \<noteq> []"
    and four: "4 \<le> length (re_split [] (py_strip (lines ! i)))"
  shows "parse_rows lines i environments =
         parse_rows lines (Suc i)
           (environments @ [environment_of (re_split [] (py_strip (lines ! i)))])"
proof -
  have t: "trimmed (py_strip (lines ! i))" using assms(2) by (rule trimmed_py_strip)
  have f: "py_strip (re_split [] (py_strip (lines ! i)) ! k) =
           re_split [] (py_strip (lines ! i)) ! k" if "k < 4" for k
    using t four that by (intro py_strip_field) simp_all
  have "parse_rows lines i environments =
        parse_rows lines (Suc i)
          (environments @
           [\<lparr>id' = py_strip (re_split [] (py_strip (lines ! i)) ! 0),
             title = py_strip (re_split [] (py_strip (lines ! i)) ! 1),
             created = py_strip (re_split [] (py_strip (lines ! i)) ! 2),
             updated = py_strip (re_split [] (py_strip (lines ! i)) ! 3)\<rparr>])"
    using assms by (subst parse_rows.simps) (simp add: Let_def)
  also have "\<dots> = parse_rows lines (Suc i)
           (environments @ [environment_of (re_split [] (py_strip (lines ! i)))])"
    by (simp only: f[of 0] f[of 1] f[of 2] f[of 3] environment_of_def)
  finally show ?thesis .
qed

lemma listed_environments_Cons:
  "listed_environments (l # ls) =
     (if py_strip l \<noteq> [] \<and> 4 \<le> length (re_split [] (py_strip l))
      then environment_of (re_split [] (py_strip l)) # listed_environments ls
      else listed_environments ls)"
  by (simp add: listed_environments_def)

lemma parse_rows_eq:
  "parse_rows lines i environments = environments @ listed_environments (drop i lines)"
proof (induction "length lines - i" arbitrary: i environments)
  case 0
  then have "\<not> i < length lines" by simp
  then show ?case by (simp add: parse_rows_end listed_environments_def)
next
  case (Suc n)
  then have lt: "i < length lines" and n: "n = length lines - Suc i" by simp_all
  have d: "drop i lines = lines ! i # drop (Suc i) lines"
    using lt by (simp add: Cons_nth_drop_Suc)
  have ih: "parse_rows lines (Suc i) es = es @ listed_environments (drop (Suc i) lines)" for es
    using Suc(1)[OF n] .
  show ?case
  proof (cases "py_strip (lines ! i) = []")
    case True
    then show ?thesis
      by (simp only: parse_rows_blank[OF lt True] ih d listed_environments_Cons) simp
  next
    case ne: False
    show ?thesis
    proof (cases "4 \<le> length (re_split [] (py_strip (lines ! i)))")
      case True
      show ?thesis
        by (simp only: parse_rows_env[OF lt ne True] ih d listed_environments_Cons) (simp add: ne True)
    next
      case False
      show ?thesis
        by (simp only: parse_rows_short[OF lt ne False] ih d listed_environments_Cons) (simp add: ne False)
    qed
  qed
qed

lemma listing_example_lines:
  "py_split 10 (py_strip (str ''e1  t  c  u\<newline>ID  TITLE  CREATED  UPDATED\<newline>e2  t  c  u'')) =
   [str ''e1  t  c  u'', str ''ID  TITLE  CREATED  UPDATED'', str ''e2  t  c  u'']"
  by (simp add: str_def isspace_def py_strip_def)

text \<open>
  C9, as stated: only the header row is skipped, and every other row of four columns or
  more gives an environment. On a listing whose header is its second row the parser
  returns the third row alone: the first row is lost with the header.
\<close>

theorem parse_environment_list_header_counterexample:
  "parse_environment_list (str ''e1  t  c  u\<newline>ID  TITLE  CREATED  UPDATED\<newline>e2  t  c  u'')
     = [\<lparr>id' = str ''e2'', title = str ''t'', created = str ''c'', updated = str ''u''\<rparr>]
   \<and> listed_environments (rows_without_header
        (py_split 10 (py_strip (str ''e1  t  c  u\<newline>ID  TITLE  CREATED  UPDATED\<newline>e2  t  c  u''))))
     = [\<lparr>id' = str ''e1'', title = str ''t'', created = str ''c'', updated = str ''u''\<rparr>,
        \<lparr>id' = str ''e2'', title = str ''t'', created = str ''c'', updated = str ''u''\<rparr>]"
  unfolding parse_environment_list_def Let_def listing_example_lines parse_rows_eq
  by (simp add: str_def isspace_def py_strip_def startswith_def is_header_def
      rows_without_header_def listed_environments_def environment_of_def)

text \<open>
  C9, amended: \<open>parse_environment_list\<close> trims the output and splits it at line feeds,
  skips the first row that begins with \<open>ID\<close> together with every row before it (nothing
  when no row begins with \<open>ID\<close>), trims each remaining row and leaves the empty ones out,
  splits each on runs of two or more whitespace characters, drops the rows of fewer than
  four columns, and returns one environment per remaining row, in order, whose id, title,
  created and updated are the first four columns of the row. That the columns of a row
  are its pieces between the runs of two or more whitespace characters is
  \<open>re_split_columns\<close> above.
\<close>

theorem parse_environment_list_rows:
  "parse_environment_list output =
     listed_environments (rows_after_header (py_split 10 (py_strip output)))"
  by (simp add: parse_environment_list_def parse_rows_eq drop_find_start_index)

section \<open>Examples of decoding and encoding\<close>

lemma utf8_decode_examples:
  "utf8_decode (bytes_of ''line1\<newline>'') = Some (str ''line1\<newline>'')"
  "utf8_decode [0xC3, 0xA9] = Some [233]"
  "utf8_decode [0xE2, 0x82, 0xAC] = Some [8364]"
  "utf8_decode [0xF0, 0x9F, 0x98, 0x80] = Some [128512]"
  "utf8_decode [0xFF] = None"
  "utf8_decode [0xC0, 0x80] = None"
  "utf8_decode [0xE2, 0x82] = None"
  "utf8_decode [0xED, 0xA0, 0x80] = None"
  "utf8_decode [0xF4, 0x90, 0x80, 0x80] = None"
  by (simp_all add: continuation_def tail6_def second_low_def second_high_def bytes_of_def
      str_def)

lemma utf8_encode_examples:
  "utf8_encode (str ''ls\<newline>'') = Some (bytes_of ''ls\<newline>'')"
  "utf8_encode [233, 8364, 128512] = Some [0xC3, 0xA9, 0xE2, 0x82, 0xAC, 0xF0, 0x9F, 0x98, 0x80]"
  "utf8_encode [0xD800] = None"
  by (simp_all add: utf8_encode_char_def bytes_of_def str_def)

section \<open>Properties of running the tool\<close>

lemma decode_output_utf8:
  "decode_output b = (case utf8_decode b of None \<Rightarrow> Inl (UnicodeDecodeError b) | Some s \<Rightarrow> Inr s)"
  by (cases "b = []") (simp_all add: decode_output_def)

lemma try_run_completed:
  "subprocess_exec sys cmd cwd = Completed out err rc \<Longrightarrow>
   utf8_decode out = Some stdout \<Longrightarrow> utf8_decode err = Some stderr \<Longrightarrow>
   try_run sys cmd cwd = Inr (stdout, stderr, (case rc of None \<Rightarrow> 0 | Some c \<Rightarrow> c))"
  by (simp add: try_run_def decode_output_utf8)

lemma try_run_failure:
  "run_failure (subprocess_exec sys cmd cwd) = Some e \<Longrightarrow> try_run sys cmd cwd = Inl e"
  by (cases "subprocess_exec sys cmd cwd")
     (auto simp: try_run_def decode_output_utf8 split: if_splits option.splits)


lemma run_completed:
  "print_line sys (announcement (container_use_bin sys # args)
      (case cwd_arg of None \<Rightarrow> container_use_work_dir sys | Some d \<Rightarrow> d)) = None \<Longrightarrow>
   subprocess_exec sys (container_use_bin sys # args)
      (case cwd_arg of None \<Rightarrow> container_use_work_dir sys | Some d \<Rightarrow> d) = Completed out err rc \<Longrightarrow>
   utf8_decode out = Some stdout \<Longrightarrow> utf8_decode err = Some stderr \<Longrightarrow>
   run_container_use_command sys args cwd_arg =
     Inr (stdout, stderr, (case rc of None \<Rightarrow> 0 | Some c \<Rightarrow> c))"
  by (simp add: run_container_use_command_def try_run_completed)

lemma run_failed:
  "print_line sys (announcement (container_use_bin sys # args)
      (case cwd_arg of None \<Rightarrow> container_use_work_dir sys | Some d \<Rightarrow> d)) = None \<Longrightarrow>
   run_failure (subprocess_exec sys (container_use_bin sys # args)
      (case cwd_arg of None \<Rightarrow> container_use_work_dir sys | Some d \<Rightarrow> d)) = Some e \<Longrightarrow>
   run_container_use_command sys args cwd_arg =
     (if is_Exception e then Inr ([], exception_str sys e, 1) else Inl e)"
  by (simp add: run_container_use_command_def try_run_failure)




section \<open>Properties of the request endpoints\<close>

lemma lower_same_letter:
  "\<not> (65 \<le> b \<and> b \<le> 90) \<Longrightarrow>
   ((if 65 \<le> a \<and> a \<le> 90 then a + 32 else a) = b) = same_letter a b"
  by (auto simp: same_letter_def)

lemma py_lower_eq_iff:
  "\<forall>b\<in>set p. \<not> (65 \<le> b \<and> b \<le> 90) \<Longrightarrow> (py_lower xs = p) = list_all2 same_letter xs p"
proof (induction xs arbitrary: p)
  case Nil
  then show ?case by (auto simp: py_lower_def)
next
  case (Cons x xs)
  show ?case
  proof (cases p)
    case Nil
    then show ?thesis by (simp add: py_lower_def)
  next
    case (Cons b bs)
    with Cons.prems have b: "\<not> (65 \<le> b \<and> b \<le> 90)" and bs: "\<forall>b\<in>set bs. \<not> (65 \<le> b \<and> b \<le> 90)"
      by simp_all
    from Cons.IH[OF bs] lower_same_letter[OF b, of x] Cons show ?thesis
      by (simp add: py_lower_def)
  qed
qed

lemma take_py_lower: "take n (py_lower s) = py_lower (take n s)"
  by (simp add: py_lower_def take_map)

lemma py_in_lower:
  "\<forall>b\<in>set p. \<not> (65 \<le> b \<and> b \<le> 90) \<Longrightarrow> py_in p (py_lower s) = contains_ignoring_case s p"
proof (induction s)
  case Nil
  then show ?case by (auto simp: py_lower_def)
next
  case (Cons c cs)
  have "py_lower (c # cs) = (if 65 \<le> c \<and> c \<le> 90 then c + 32 else c) # py_lower cs"
    by (simp add: py_lower_def)
  then have "py_in p (py_lower (c # cs)) =
      (startswith (py_lower (c # cs)) p \<or> py_in p (py_lower cs))"
    by simp
  also have "startswith (py_lower (c # cs)) p =
      list_all2 same_letter (take (length p) (c # cs)) p"
    unfolding startswith_def take_py_lower by (rule py_lower_eq_iff[OF Cons.prems])
  finally show ?case using Cons.IH[OF Cons.prems] by simp
qed

lemma is_not_found_says: "is_not_found t = says_not_found t"
proof -
  have a: "\<forall>b\<in>set (str ''not found''). \<not> (65 \<le> b \<and> b \<le> 90)" by (simp add: str_def)
  have b: "\<forall>b\<in>set (str ''does not exist''). \<not> (65 \<le> b \<and> b \<le> 90)" by (simp add: str_def)
  show ?thesis
    unfolding is_not_found_def says_not_found_def py_in_lower[OF a] py_in_lower[OF b] ..
qed

lemma error_output_reported: "error_output_of stderr stdout = reported_error stderr stdout"
  by (simp add: error_output_of_def reported_error_def)

text \<open>
  A phrase is held case-insensitively exactly when the text can be cut into three parts
  whose middle part has the characters of the phrase, each up to the case of a letter.
\<close>

lemma contains_ignoring_case_iff:
  "contains_ignoring_case s p \<longleftrightarrow> (\<exists>pre w suf. s = pre @ w @ suf \<and> list_all2 same_letter w p)"
proof (induction s)
  case Nil
  then show ?case by (auto simp: list_all2_Nil)
next
  case (Cons c cs)
  show ?case
  proof
    assume "contains_ignoring_case (c # cs) p"
    then consider "list_all2 same_letter (take (length p) (c # cs)) p"
      | "contains_ignoring_case cs p" by auto
    then show "\<exists>pre w suf. c # cs = pre @ w @ suf \<and> list_all2 same_letter w p"
    proof cases
      case 1
      have "c # cs = [] @ take (length p) (c # cs) @ drop (length p) (c # cs)" by simp
      with 1 show ?thesis by blast
    next
      case 2
      with Cons.IH obtain pre w suf where "cs = pre @ w @ suf" "list_all2 same_letter w p"
        by blast
      then have "c # cs = (c # pre) @ w @ suf" by simp
      with \<open>list_all2 same_letter w p\<close> show ?thesis by blast
    qed
  next
    assume "\<exists>pre w suf. c # cs = pre @ w @ suf \<and> list_all2 same_letter w p"
    then obtain pre w suf where e: "c # cs = pre @ w @ suf" and l: "list_all2 same_letter w p"
      by blast
    from l have len: "length w = length p" by (rule list_all2_lengthD)
    show "contains_ignoring_case (c # cs) p"
    proof (cases pre)
      case Nil
      with e len have "take (length p) (c # cs) = w" by simp
      with l show ?thesis by simp
    next
      case (Cons a pre')
      with e have "cs = pre' @ w @ suf" by simp
      with l Cons.IH show ?thesis by auto
    qed
  qed
qed

text \<open>
  Whatever the order in which the set of the valid actions is iterated, the message of the
  400 response lists each of the four actions once.
\<close>

lemma iterate_set_valid_actions:
  "distinct (iterate_set sys valid_actions) \<and>
   set (iterate_set sys valid_actions) = set valid_actions"
  by (simp add: iterate_set_def) (simp add: valid_actions_def str_def)

lemma logs_of_run:
  "env_id \<noteq> [] \<Longrightarrow>
   get_environment_logs sys env_id =
     (case run_container_use_command sys [str ''log'', env_id] None of
        Inl e \<Rightarrow> Propagates e
      | Inr (stdout, stderr, code) \<Rightarrow>
          if code = 0 then Returns stdout
          else RaisesHTTP (HTTPException
                 (if says_not_found (reported_error stderr stdout) then 404 else 500)
                 [(str ''error'',
                   if says_not_found (reported_error stderr stdout)
                   then str ''Environment '' @ [39] @ env_id @ [39] @ str '' not found''
                   else str ''Failed to get logs for environment '' @ [39] @ env_id @ [39]),
                  (str ''detail'', reported_error stderr stdout)]))"
  by (simp add: get_environment_logs_def Let_def is_not_found_says error_output_reported
      split: sum.splits prod.splits)

lemma diff_of_run:
  "env_id \<noteq> [] \<Longrightarrow>
   get_environment_diff sys env_id =
     (case run_container_use_command sys [str ''diff'', env_id] None of
        Inl e \<Rightarrow> Propagates e
      | Inr (stdout, stderr, code) \<Rightarrow>
          if code = 0 then Returns stdout
          else RaisesHTTP (HTTPException
                 (if says_not_found (reported_error stderr stdout) then 404 else 500)
                 [(str ''error'',
                   if says_not_found (reported_error stderr stdout)
                   then str ''Environment '' @ [39] @ env_id @ [39] @ str '' not found''
                   else str ''Failed to get diff for environment '' @ [39] @ env_id @ [39]),
                  (str ''detail'', reported_error stderr stdout)]))"
  by (simp add: get_environment_diff_def Let_def is_not_found_says error_output_reported
      split: sum.splits prod.splits)

lemma action_of_run:
  "act \<noteq> [] \<Longrightarrow> env_id \<noteq> [] \<Longrightarrow> act \<in> set valid_actions \<Longrightarrow>
   execute_action sys \<lparr>action = act, environment_id = env_id\<rparr> =
     (case run_container_use_command sys [act, env_id] None of
        Inl e \<Rightarrow> Propagates e
      | Inr (stdout, stderr, code) \<Rightarrow>
          if code = 0 then
            Returns \<lparr>success = True, response_action = act, response_environment_id = env_id,
                     response_output = stdout\<rparr>
          else RaisesHTTP (HTTPException
                 (if says_not_found (reported_error stderr stdout) then 404 else 500)
                 [(str ''error'',
                   if says_not_found (reported_error stderr stdout)
                   then str ''Environment '' @ [39] @ env_id @ [39] @ str '' not found''
                   else str ''Failed to execute '' @ [39] @ act @ [39] @
                        str '' on environment '' @ [39] @ env_id @ [39]),
                  (str ''detail'', reported_error stderr stdout)]))"
  by (simp add: execute_action_def Let_def is_not_found_says error_output_reported
      split: sum.splits prod.splits)

text \<open>
  The answer to a request on which the tool is run, from what
  \<open>run_container_use_command\<close> gives.
\<close>

lemma answer_propagates:
  assumes "runs_tool req" and "run_container_use_command sys (tool_args req) None = Inl e"
  shows "answer sys req = Propagates e"
  using assms by (cases req) (simp_all add: logs_of_run diff_of_run action_of_run)

lemma answer_success:
  assumes "runs_tool req"
    and "run_container_use_command sys (tool_args req) None = Inr (stdout, stderr, 0)"
  shows "answer sys req = Returns (success_body req stdout)"
  using assms by (cases req) (simp_all add: logs_of_run diff_of_run action_of_run)

lemma answer_failure:
  assumes "runs_tool req"
    and "run_container_use_command sys (tool_args req) None = Inr (stdout, stderr, code)"
    and "code \<noteq> 0"
  shows "http_status (answer sys req) =
           Some (if says_not_found (reported_error stderr stdout) then 404 else 500)"
  using assms by (cases req) (simp_all add: logs_of_run diff_of_run action_of_run)

lemma run_for_request_completed:
  assumes "announced sys req" and "tool_run sys req = Completed out err rc"
    and "utf8_decode out = Some stdout" and "utf8_decode err = Some stderr"
  shows "run_container_use_command sys (tool_args req) None =
           Inr (stdout, stderr, (case rc of None \<Rightarrow> 0 | Some c \<Rightarrow> c))"
  using assms by (intro run_completed) (simp_all add: announced_def tool_run_def)

lemma run_for_request_failed:
  assumes "announced sys req" and "run_failure (tool_run sys req) = Some e"
  shows "run_container_use_command sys (tool_args req) None =
           (if is_Exception e then Inr ([], exception_str sys e, 1) else Inl e)"
  using assms by (intro run_failed) (simp_all add: announced_def tool_run_def)

lemma run_not_found_on_stdout:
  "run_container_use_command sys_not_found_on_stdout args None =
     Inr (str ''environment not found'', str ''boom'', 1)"
  by (simp add: run_container_use_command_def try_run_def decode_output_def
      sys_not_found_on_stdout_def system_with_def bytes_of_def str_def)

lemma run_invalid_output:
  "run_container_use_command sys_invalid_output args None = Inr ([], str ''invalid start byte'', 1)"
  by (simp add: run_container_use_command_def try_run_def decode_output_def
      sys_invalid_output_def system_with_def)

text \<open>
  C8, as stated: a non-zero exit gives 404 exactly when the stderr or the stdout of the tool
  holds one of the two phrases, and a zero exit gives 200 with the captured stdout. In the
  first system the tool exits with status 1, its stdout says \<open>environment not found\<close> and
  its stderr says \<open>boom\<close>: the answer is 500. In the second the tool exits with status 0
  and its stdout is the single byte FF: the answer is 500 as well.
\<close>

theorem get_environment_logs_stdout_counterexample:
  "tool_run sys_not_found_on_stdout (Logs (str ''e1''))
     = Completed (bytes_of ''environment not found'') (bytes_of ''boom'') (Some 1)
   \<and> mentions_not_found (str ''boom'') (str ''environment not found'')
   \<and> http_status (get_environment_logs sys_not_found_on_stdout (str ''e1'')) = Some 500
   \<and> tool_run sys_invalid_output (Logs (str ''e1'')) = Completed [0xFF] [] (Some 0)
   \<and> http_status (get_environment_logs sys_invalid_output (str ''e1'')) = Some 500"
proof (intro conjI)
  show "tool_run sys_not_found_on_stdout (Logs (str ''e1''))
     = Completed (bytes_of ''environment not found'') (bytes_of ''boom'') (Some 1)"
    by (simp add: tool_run_def sys_not_found_on_stdout_def system_with_def)
  show "mentions_not_found (str ''boom'') (str ''environment not found'')"
    unfolding mentions_not_found_def is_not_found_says[symmetric]
    by (simp add: is_not_found_def py_lower_def startswith_def str_def)
  show "http_status (get_environment_logs sys_not_found_on_stdout (str ''e1'')) = Some 500"
    by (simp add: get_environment_logs_def run_not_found_on_stdout error_output_of_def
        is_not_found_def py_lower_def startswith_def str_def)
  show "tool_run sys_invalid_output (Logs (str ''e1'')) = Completed [0xFF] [] (Some 0)"
    by (simp add: tool_run_def sys_invalid_output_def system_with_def)
  show "http_status (get_environment_logs sys_invalid_output (str ''e1'')) = Some 500"
    by (simp add: get_environment_logs_def run_invalid_output error_output_of_def
        is_not_found_def py_lower_def startswith_def str_def)
qed

text \<open>
  C8, amended: for every logs, diff or action request on which the tool is run (a non-empty
  environment identifier, and for an action a non-empty valid action) and whose command is
  announced by \<open>print\<close> without an exception:

  \<^item> if the tool runs to its end and its stdout and its stderr are both valid UTF-8, then on
    an exit code of zero (or none) the endpoint returns 200 with the decoded stdout (as the
    \<open>output\<close> of the action response for an action), and on a non-zero exit code it
    returns 404 exactly when the error output, which is the stderr of the tool when that
    is not empty and its stdout otherwise, contains \<open>not found\<close> or \<open>does not exist\<close>
    case-insensitively, and 500 in every other case;

  \<^item> if starting the tool or communicating with it raises an \<open>Exception\<close>, or its stdout
    or its stderr is not valid UTF-8, then whatever the exit code of the tool the endpoint
    returns 404 when the string of that exception contains one of the two phrases
    case-insensitively, and 500 otherwise;

  \<^item> if starting the tool or communicating with it raises an exception that is not an
    \<open>Exception\<close>, that exception passes through the endpoint.
\<close>

theorem endpoint_status_of_tool_exit:
  assumes "runs_tool req" and "announced sys req"
  shows
    "(\<forall>out err rc stdout stderr.
        tool_run sys req = Completed out err rc \<and>
        utf8_decode out = Some stdout \<and> utf8_decode err = Some stderr \<longrightarrow>
        (if rc = None \<or> rc = Some 0 then answer sys req = Returns (success_body req stdout)
         else http_status (answer sys req) =
                Some (if says_not_found (reported_error stderr stdout) then 404 else 500)))
     \<and> (\<forall>e. run_failure (tool_run sys req) = Some e \<and> is_Exception e \<longrightarrow>
          http_status (answer sys req) =
            Some (if says_not_found (exception_str sys e) then 404 else 500))
     \<and> (\<forall>e. run_failure (tool_run sys req) = Some e \<and> \<not> is_Exception e \<longrightarrow>
          answer sys req = Propagates e)"
proof (intro conjI allI impI)
  fix out err rc stdout stderr
  assume a: "tool_run sys req = Completed out err rc \<and>
        utf8_decode out = Some stdout \<and> utf8_decode err = Some stderr"
  then have r: "run_container_use_command sys (tool_args req) None =
           Inr (stdout, stderr, (case rc of None \<Rightarrow> 0 | Some c \<Rightarrow> c))"
    using run_for_request_completed[OF assms(2)] by blast
  show "if rc = None \<or> rc = Some 0 then answer sys req = Returns (success_body req stdout)
         else http_status (answer sys req) =
                Some (if says_not_found (reported_error stderr stdout) then 404 else 500)"
  proof (cases "rc = None \<or> rc = Some 0")
    case True
    with r have "run_container_use_command sys (tool_args req) None = Inr (stdout, stderr, 0)"
      by auto
    from answer_success[OF assms(1) this] True show ?thesis by simp
  next
    case False
    then obtain c where c: "rc = Some c" "c \<noteq> 0" by (cases rc) auto
    with r have "run_container_use_command sys (tool_args req) None = Inr (stdout, stderr, c)"
      by simp
    from answer_failure[OF assms(1) this c(2)] c show ?thesis by simp
  qed
next
  fix e
  assume a: "run_failure (tool_run sys req) = Some e \<and> is_Exception e"
  then have r: "run_container_use_command sys (tool_args req) None =
      Inr ([], exception_str sys e, 1)"
    using run_for_request_failed[OF assms(2), of e] by simp
  from answer_failure[OF assms(1) r]
  show "http_status (answer sys req) =
            Some (if says_not_found (exception_str sys e) then 404 else 500)"
    by (simp add: reported_error_def)
next
  fix e
  assume a: "run_failure (tool_run sys req) = Some e \<and> \<not> is_Exception e"
  then have r: "run_container_use_command sys (tool_args req) None = Inl e"
    using run_for_request_failed[OF assms(2), of e] by simp
  from answer_propagates[OF assms(1) r] show "answer sys req = Propagates e" .
qed

theorem endpoint_status_of_tool_exit_witness:
  "runs_tool (Action (str ''merge'') (str ''e1''))
   \<and> announced sys_not_found_on_stdout (Action (str ''merge'') (str ''e1''))
   \<and> tool_run sys_not_found_on_stdout (Action (str ''merge'') (str ''e1''))
       = Completed (bytes_of ''environment not found'') (bytes_of ''boom'') (Some 1)
   \<and> utf8_decode (bytes_of ''environment not found'') = Some (str ''environment not found'')
   \<and> utf8_decode (bytes_of ''boom'') = Some (str ''boom'')
   \<and> http_status (answer sys_not_found_on_stdout (Action (str ''merge'') (str ''e1'')))
       = Some 500
   \<and> runs_tool (Logs (str ''e1'')) \<and> announced sys_no_binary (Logs (str ''e1''))
   \<and> run_failure (tool_run sys_no_binary (Logs (str ''e1'')))
       = Some (OSError (str ''No such file or directory''))
   \<and> http_status (answer sys_no_binary (Logs (str ''e1''))) = Some 500"
proof -
  let ?req = "Action (str ''merge'') (str ''e1'')"
  have h1: "runs_tool ?req" by (simp add: valid_actions_def str_def)
  have h2: "announced sys_not_found_on_stdout ?req"
    by (simp add: announced_def sys_not_found_on_stdout_def system_with_def)
  have t: "tool_run sys_not_found_on_stdout ?req
       = Completed (bytes_of ''environment not found'') (bytes_of ''boom'') (Some 1)"
    by (simp add: tool_run_def sys_not_found_on_stdout_def system_with_def)
  have d1: "utf8_decode (bytes_of ''environment not found'') = Some (str ''environment not found'')"
    by (simp add: bytes_of_def str_def)
  have d2: "utf8_decode (bytes_of ''boom'') = Some (str ''boom'')"
    by (simp add: bytes_of_def str_def)
  have n: "\<not> says_not_found (reported_error (str ''boom'') (str ''environment not found''))"
    unfolding is_not_found_says[symmetric]
    by (simp add: reported_error_def is_not_found_def py_lower_def startswith_def str_def)
  from endpoint_status_of_tool_exit [OF h1 h2] t d1 d2
  have "if Some (1::int) = None \<or> Some (1::int) = Some 0
        then answer sys_not_found_on_stdout ?req
               = Returns (success_body ?req (str ''environment not found''))
        else http_status (answer sys_not_found_on_stdout ?req) =
               Some (if says_not_found (reported_error (str ''boom'') (str ''environment not found''))
                     then 404 else 500)"
    by blast
  with n have a: "http_status (answer sys_not_found_on_stdout ?req) = Some 500" by simp
  have g1: "runs_tool (Logs (str ''e1''))" by (simp add: str_def)
  have g2: "announced sys_no_binary (Logs (str ''e1''))"
    by (simp add: announced_def sys_no_binary_def system_with_def)
  have f: "run_failure (tool_run sys_no_binary (Logs (str ''e1'')))
       = Some (OSError (str ''No such file or directory''))"
    by (simp add: tool_run_def sys_no_binary_def system_with_def)
  have x: "exception_str sys_no_binary (OSError (str ''No such file or directory''))
        = str ''No such file or directory''"
    by (simp add: sys_no_binary_def system_with_def)
  have m: "\<not> says_not_found (str ''No such file or directory'')"
    unfolding is_not_found_says[symmetric]
    by (simp add: is_not_found_def py_lower_def startswith_def str_def)
  have e: "is_Exception (OSError (str ''No such file or directory''))" by simp
  from endpoint_status_of_tool_exit [OF g1 g2] f e
  have "http_status (answer sys_no_binary (Logs (str ''e1''))) =
          Some (if says_not_found (exception_str sys_no_binary
                  (OSError (str ''No such file or directory''))) then 404 else 500)"
    by blast
  with x m have b: "http_status (answer sys_no_binary (Logs (str ''e1''))) = Some 500" by simp
  from h1 h2 t d1 d2 a g1 g2 f b show ?thesis by blast
qed

section \<open>Properties of the cleanup of the process\<close>

lemma wait_for_exit_cases:
  "wait_for_exit r p =
     (if exits_in_time r then
        (p\<lparr>returncode := Some (snd (the (exit_after_term r)))\<rparr>,
         Some (fst (the (exit_after_term r))))
      else
        (case exit_after_kill r of
           None \<Rightarrow> (p\<lparr>signals := signals p @ [SIGKILL]\<rparr>, None)
         | Some d \<Rightarrow>
             (p\<lparr>signals := signals p @ [SIGKILL], returncode := Some (- 9)\<rparr>,
              Some (5000 + d))))"
  by (auto simp: wait_for_exit_def kill_and_wait_def exits_in_time_def Let_def
      split: option.splits)

lemma exits_in_time_le: "exits_in_time r \<Longrightarrow> fst (the (exit_after_term r)) \<le> 5000"
  by (auto simp: exits_in_time_def split: option.splits)

text \<open>
  The wait for a process that has no return code and has just been sent SIGTERM, as its
  first signal, is as claimed.
\<close>

lemma wait_for_exit_as_claimed:
  assumes "wait_for_exit r p = (p', waited)" and "signals p = [SIGTERM]"
    and "returncode p = None"
  shows "reaped_as_claimed r p' (if waited = None then HandlerSuspended else HandlerReturned)
           waited"
  using assms exits_in_time_le[of r]
  by (auto simp: wait_for_exit_cases reaped_as_claimed_def split: if_splits option.splits)

lemma wait_for_exit_fields:
  assumes "wait_for_exit r p = (p', waited)"
  shows "stdin_closed p' = stdin_closed p" and "has_stdin p' = has_stdin p"
    and "stdin_written p' = stdin_written p"
  using assms by (auto simp: wait_for_exit_cases split: if_splits option.splits)

lemma wait_for_exit_congruent:
  assumes "signals p = signals q" and "returncode p = returncode q"
  shows "signals (fst (wait_for_exit r p)) = signals (fst (wait_for_exit r q))"
    and "returncode (fst (wait_for_exit r p)) = returncode (fst (wait_for_exit r q))"
    and "snd (wait_for_exit r p) = snd (wait_for_exit r q)"
  using assms by (auto simp: wait_for_exit_cases split: if_splits option.splits)

lemma wait_for_exit_returns:
  "exits_in_time r \<or> exit_after_kill r \<noteq> None \<Longrightarrow>
   \<exists>p' t. wait_for_exit r p = (p', Some t) \<and> returncode p' \<noteq> None \<and>
          signals p' = signals p @ (if exits_in_time r then [] else [SIGKILL])"
  by (auto simp: wait_for_exit_cases split: if_splits option.splits)

section \<open>Properties of the output readers\<close>

lemma forward_output_decoded:
  "\<not> peer_gone sock \<Longrightarrow> \<not> closed sock \<Longrightarrow>
   forward_output tag r sock =
     (case decoded r of
        None \<Rightarrow> (Break, sock)
      | Some text \<Rightarrow> (Continue, sock\<lparr>outbox := outbox sock @ [tagged tag text]\<rparr>))"
  by (cases r) (auto simp: forward_output_def send_json_def split: option.splits)

lemma reader_forwards:
  "\<not> peer_gone sock \<Longrightarrow> \<not> closed sock \<Longrightarrow>
   reader tag reads sock =
     (if list_all (\<lambda>r. decoded r \<noteq> None) reads then Suspended else Returned,
      sock\<lparr>outbox := outbox sock @
           map (\<lambda>r. tagged tag (the (decoded r))) (takeWhile (\<lambda>r. decoded r \<noteq> None) reads)\<rparr>)"
proof (induction reads arbitrary: sock)
  case Nil
  then show ?case by simp
next
  case (Cons r rs)
  show ?case
  proof (cases "decoded r")
    case None
    with Cons.prems show ?thesis by (simp add: forward_output_decoded)
  next
    case (Some t)
    let ?sock' = "sock\<lparr>outbox := outbox sock @ [tagged tag t]\<rparr>"
    have open': "\<not> peer_gone ?sock'" "\<not> closed ?sock'" using Cons.prems by simp_all
    show ?thesis
      using Some Cons.prems Cons.IH[OF open'] by (simp add: forward_output_decoded)
  qed
qed

text \<open>
  C6, as stated: a byte sequence that is not valid UTF-8 never makes a reader stop, and a
  message is forwarded for it. Here the stdout reader reads the byte FF and then the bytes
  of \<open>ok\<close>, which are valid: it returns at the first read and forwards nothing, neither
  for the first read nor for the second.
\<close>

theorem reader_invalid_utf8_counterexample:
  "handle_stdout [Data [0xFF], Data (bytes_of ''ok'')] open_websocket
     = (Returned, open_websocket)
   \<and> utf8_decode (bytes_of ''ok'') = Some (str ''ok'')"
  by (simp add: handle_stdout_def forward_output_def bytes_of_def str_def)

text \<open>
  C6, amended: while the connection is open, a reader forwards one message, tagged with its
  stream, for every read that gives bytes that are not empty and are valid UTF-8, in the
  order of the reads. The first read that gives bytes that are not valid UTF-8 ends the
  reader, as the end of the stream or an exception of the read does: the exception is
  caught, so that the reader returns without raising, and no message is forwarded for this
  read nor for anything after it.
\<close>

theorem readers_forward_until_undecodable:
  assumes "\<not> peer_gone sock" and "\<not> closed sock"
  shows
    "handle_stdout reads sock =
       (if list_all (\<lambda>r. decoded r \<noteq> None) reads then Suspended else Returned,
        sock\<lparr>outbox := outbox sock @
             map (\<lambda>r. tagged (str ''stdout'') (the (decoded r)))
               (takeWhile (\<lambda>r. decoded r \<noteq> None) reads)\<rparr>)
     \<and> handle_stderr reads sock =
       (if list_all (\<lambda>r. decoded r \<noteq> None) reads then Suspended else Returned,
        sock\<lparr>outbox := outbox sock @
             map (\<lambda>r. tagged (str ''stderr'') (the (decoded r)))
               (takeWhile (\<lambda>r. decoded r \<noteq> None) reads)\<rparr>)"
  using assms by (simp add: handle_stdout_def handle_stderr_def reader_forwards)

theorem readers_forward_until_undecodable_witness:
  "\<not> peer_gone open_websocket \<and> \<not> closed open_websocket
   \<and> handle_stdout [Data (bytes_of ''line1\<newline>''), Data [0xFF], Data (bytes_of ''ok'')]
        open_websocket
     = (Returned, open_websocket\<lparr>outbox := [tagged (str ''stdout'') (str ''line1\<newline>'')]\<rparr>)"
proof -
  have h1: "\<not> peer_gone open_websocket"
    by (simp add: open_websocket_def ws_accept_def new_websocket_def)
  have h2: "\<not> closed open_websocket"
    by (simp add: open_websocket_def ws_accept_def new_websocket_def)
  have o: "outbox open_websocket = []"
    by (simp add: open_websocket_def ws_accept_def new_websocket_def)
  show ?thesis
    using h1 h2 o
      readers_forward_until_undecodable [OF h1 h2,
        of "[Data (bytes_of ''line1\<newline>''), Data [0xFF], Data (bytes_of ''ok'')]"]
    by (simp add: bytes_of_def str_def)
qed

section \<open>Properties of the terminal session\<close>

text \<open>
  C7: when the terminal handler is called with an empty environment identifier and the
  peer can be reached, it sends exactly one message, the object with the single key
  \<open>error\<close>, closes the connection and returns; no process is started and no task is
  created.
\<close>

theorem terminal_websocket_empty_id:
  assumes "\<not> peer_gone_early w"
  shows "outbox (final_ws (terminal_websocket sys w [])) =
           [JObject [(str ''error'', JString (str ''Environment ID is required''))]]
         \<and> closed (final_ws (terminal_websocket sys w []))
         \<and> spawned (terminal_websocket sys w []) = []
         \<and> final_session (terminal_websocket sys w []) = None
         \<and> outcome (terminal_websocket sys w []) = HandlerReturned"
  using assms
  by (simp add: terminal_websocket_def send_json_def ws_accept_def new_websocket_def
      ws_close_def Let_def)

theorem terminal_websocket_empty_id_witness:
  "\<not> peer_gone_early (inbound_only [])
   \<and> outbox (final_ws (terminal_websocket example_system (inbound_only []) [])) =
       [JObject [(str ''error'', JString (str ''Environment ID is required''))]]
   \<and> closed (final_ws (terminal_websocket example_system (inbound_only []) []))
   \<and> spawned (terminal_websocket example_system (inbound_only []) []) = []"
proof -
  have h: "\<not> peer_gone_early (inbound_only [])" by (simp add: inbound_only_def)
  show ?thesis
    using h terminal_websocket_empty_id [OF h, of example_system] by simp
qed

subsection \<open>What the steps of the tasks leave unchanged\<close>

lemma handle_message_proc:
  "handle_message m p = (st, p') \<Longrightarrow>
   returncode p' = returncode p \<and> signals p' = signals p \<and>
   stdin_closed p' = stdin_closed p \<and> has_stdin p' = has_stdin p"
  by (induction m p rule: handle_message.induct)
     (auto simp: stdin_write_def split: if_splits json.splits option.splits)

lemma run_task_proc:
  "returncode (proc (run_task t s)) = returncode (proc s) \<and>
   signals (proc (run_task t s)) = signals (proc s) \<and>
   stdin_closed (proc (run_task t s)) = stdin_closed (proc s) \<and>
   has_stdin (proc (run_task t s)) = has_stdin (proc s)"
proof (cases t)
  case StdoutTask
  then show ?thesis
    by (auto simp: stdout_step_def split: list.splits prod.splits loop_step.splits)
next
  case StderrTask
  then show ?thesis
    by (auto simp: stderr_step_def split: list.splits prod.splits loop_step.splits)
next
  case InputTask
  then show ?thesis
    by (auto simp: input_step_def dest: handle_message_proc
        split: list.splits prod.splits loop_step.splits)
qed

lemma fold_run_task_proc:
  "returncode (proc (fold run_task ts s)) = returncode (proc s) \<and>
   signals (proc (fold run_task ts s)) = signals (proc s) \<and>
   stdin_closed (proc (fold run_task ts s)) = stdin_closed (proc s) \<and>
   has_stdin (proc (fold run_task ts s)) = has_stdin (proc s)"
  by (induction ts arbitrary: s) (simp_all add: run_task_proc)

lemma apply_event_proc:
  "signals (proc (apply_event e s)) = signals (proc s) \<and>
   stdin_closed (proc (apply_event e s)) = stdin_closed (proc s) \<and>
   has_stdin (proc (apply_event e s)) = has_stdin (proc s)"
  by (cases e) (simp_all add: run_task_proc process_exits_def)

lemma fold_apply_event_proc:
  "signals (proc (fold apply_event es s)) = signals (proc s) \<and>
   stdin_closed (proc (fold apply_event es s)) = stdin_closed (proc s) \<and>
   has_stdin (proc (fold apply_event es s)) = has_stdin (proc s)"
  by (induction es arbitrary: s) (simp_all add: apply_event_proc)

lemma wait_first_completed_proc:
  "signals (proc (snd (wait_first_completed d es s))) = signals (proc s) \<and>
   stdin_closed (proc (snd (wait_first_completed d es s))) = stdin_closed (proc s) \<and>
   has_stdin (proc (snd (wait_first_completed d es s))) = has_stdin (proc s)"
proof (induction es arbitrary: s)
  case Nil
  show ?case by simp
next
  case (Cons e es)
  show ?case
  proof (cases "any_done s")
    case True
    then show ?thesis using fold_apply_event_proc[of "take d (e # es)" s] by simp
  next
    case False
    then show ?thesis using Cons.IH[of "apply_event e s"] by (simp add: apply_event_proc)
  qed
qed

subsection \<open>The states of the tasks\<close>

lemma any_done_iff: "any_done s \<longleftrightarrow> (\<exists>t. task_state_of t s = Done)"
proof
  assume "any_done s"
  then consider "task_state_of StdoutTask s = Done" | "task_state_of StderrTask s = Done"
    | "task_state_of InputTask s = Done" by (auto simp: any_done_def)
  then show "\<exists>t. task_state_of t s = Done" by cases blast+
next
  assume "\<exists>t. task_state_of t s = Done"
  then obtain t where "task_state_of t s = Done" ..
  then show "any_done s" by (cases t) (simp_all add: any_done_def)
qed

lemma run_task_idle: "task_state_of t s \<noteq> Pending \<Longrightarrow> run_task t s = s"
  by (cases t) (simp_all add: stdout_step_def stderr_step_def input_step_def)

lemma run_task_other: "t \<noteq> u \<Longrightarrow> task_state_of t (run_task u s) = task_state_of t s"
  by (cases t; cases u)
     (auto simp: stdout_step_def stderr_step_def input_step_def
      split: list.splits prod.splits loop_step.splits)

lemma run_task_settled:
  "task_state_of t s \<noteq> Pending \<Longrightarrow> task_state_of t (run_task u s) = task_state_of t s"
  by (cases "t = u") (simp_all add: run_task_idle run_task_other)

lemma fold_run_task_settled:
  "task_state_of t s \<noteq> Pending \<Longrightarrow> task_state_of t (fold run_task us s) = task_state_of t s"
  by (induction us arbitrary: s) (simp_all add: run_task_settled)

lemma task_state_of_proc_update [simp]: "task_state_of t (s\<lparr>proc := p\<rparr>) = task_state_of t s"
  by (cases t) simp_all

lemma apply_event_settled:
  "task_state_of t s \<noteq> Pending \<Longrightarrow> task_state_of t (apply_event e s) = task_state_of t s"
  by (cases e) (simp_all add: run_task_settled)

lemma fold_apply_event_settled:
  "task_state_of t s \<noteq> Pending \<Longrightarrow> task_state_of t (fold apply_event es s) = task_state_of t s"
  by (induction es arbitrary: s) (simp_all add: apply_event_settled)

lemma any_done_fold_apply_event: "any_done s \<Longrightarrow> any_done (fold apply_event es s)"
  unfolding any_done_iff using fold_apply_event_settled[of _ s es]
  by (metis task_state.distinct(1))

lemma wait_first_completed_returns:
  "fst (wait_first_completed d es s) = any_done (fold apply_event es s)"
proof (induction es arbitrary: s)
  case Nil
  show ?case by simp
next
  case (Cons e es)
  show ?case
  proof (cases "any_done s")
    case True
    with any_done_fold_apply_event[OF True, of "e # es"] show ?thesis by simp
  next
    case False
    with Cons.IH[of "apply_event e s"] show ?thesis by simp
  qed
qed

lemma wait_first_completed_done:
  "fst (wait_first_completed d es s) \<Longrightarrow> any_done (snd (wait_first_completed d es s))"
proof (induction es arbitrary: s)
  case Nil
  then show ?case by simp
next
  case (Cons e es)
  show ?case
  proof (cases "any_done s")
    case True
    with any_done_fold_apply_event[OF True, of "take d (e # es)"] show ?thesis by simp
  next
    case False
    with Cons.prems Cons.IH[of "apply_event e s"] show ?thesis by simp
  qed
qed

text \<open>
  A task completes at some point of the schedule exactly when a task is done at its end,
  and the wait returns with the session reached \<open>d\<close> events after the first point at
  which a task is done.
\<close>

lemma completes_at_some_point:
  "(\<exists>k. any_done (fold apply_event (take k es) s)) \<longleftrightarrow> any_done (fold apply_event es s)"
proof
  assume "\<exists>k. any_done (fold apply_event (take k es) s)"
  then obtain k where k: "any_done (fold apply_event (take k es) s)" ..
  have "fold apply_event (take k es @ drop k es) s =
          fold apply_event (drop k es) (fold apply_event (take k es) s)"
    by (simp only: fold_append comp_apply)
  then have "fold apply_event es s = fold apply_event (drop k es) (fold apply_event (take k es) s)"
    by simp
  with any_done_fold_apply_event[OF k, of "drop k es"]
  show "any_done (fold apply_event es s)" by simp
next
  assume "any_done (fold apply_event es s)"
  then have "any_done (fold apply_event (take (length es) es) s)" by simp
  then show "\<exists>k. any_done (fold apply_event (take k es) s)" ..
qed

lemma wait_first_completed_when:
  "wait_first_completed d es s = (True, s1) \<Longrightarrow>
   \<exists>k\<le>length es. any_done (fold apply_event (take k es) s) \<and>
     (\<forall>j<k. \<not> any_done (fold apply_event (take j es) s)) \<and>
     s1 = fold apply_event (take (k + d) es) s"
proof (induction es arbitrary: s)
  case Nil
  then show ?case by auto
next
  case (Cons e es)
  show ?case
  proof (cases "any_done s")
    case True
    with Cons.prems have "s1 = fold apply_event (take (0 + d) (e # es)) s" by simp
    with True show ?thesis by (intro exI[of _ 0]) simp
  next
    case False
    with Cons.prems have "wait_first_completed d es (apply_event e s) = (True, s1)" by simp
    from Cons.IH[OF this] obtain k where k: "k \<le> length es"
      "any_done (fold apply_event (take k es) (apply_event e s))"
      "\<forall>j<k. \<not> any_done (fold apply_event (take j es) (apply_event e s))"
      "s1 = fold apply_event (take (k + d) es) (apply_event e s)" by blast
    have "\<forall>j<Suc k. \<not> any_done (fold apply_event (take j (e # es)) s)"
    proof (intro allI impI)
      fix j assume "j < Suc k"
      then show "\<not> any_done (fold apply_event (take j (e # es)) s)"
        using False k(3) by (cases j) simp_all
    qed
    with k(1,2,4) show ?thesis by (intro exI[of _ "Suc k"]) simp
  qed
qed

lemma cancel_state: "task_state_of t (cancel u s) = (if t = u then Cancelled else task_state_of t s)"
  by (cases t; cases u) simp_all

lemma cancel_proc [simp]: "proc (cancel u s) = proc s"
  by (cases u) simp_all

lemma cancel_and_await_self: "task_state_of t (cancel_and_await during t s) \<noteq> Pending"
  by (simp add: cancel_and_await_def fold_run_task_settled cancel_state)

lemma cancel_and_await_settled:
  "task_state_of t s \<noteq> Pending \<Longrightarrow>
   task_state_of t (cancel_and_await during u s) = task_state_of t s"
  by (cases "t = u") (auto simp: cancel_and_await_def fold_run_task_settled cancel_state)

lemma cancel_and_await_proc:
  "returncode (proc (cancel_and_await during u s)) = returncode (proc s) \<and>
   signals (proc (cancel_and_await during u s)) = signals (proc s) \<and>
   stdin_closed (proc (cancel_and_await during u s)) = stdin_closed (proc s) \<and>
   has_stdin (proc (cancel_and_await during u s)) = has_stdin (proc s)"
  by (simp add: cancel_and_await_def fold_run_task_proc)

lemma cancel_remaining_proc:
  "returncode (proc (cancel_remaining during s)) = returncode (proc s) \<and>
   signals (proc (cancel_remaining during s)) = signals (proc s) \<and>
   stdin_closed (proc (cancel_remaining during s)) = stdin_closed (proc s) \<and>
   has_stdin (proc (cancel_remaining during s)) = has_stdin (proc s)"
  by (simp add: cancel_remaining_def cancel_and_await_proc)

lemma cancel_remaining_settled:
  "task_state_of t s \<noteq> Pending \<Longrightarrow> task_state_of t (cancel_remaining during s) = task_state_of t s"
  by (simp add: cancel_remaining_def cancel_and_await_settled)

lemma cancel_remaining_none_pending: "task_state_of t (cancel_remaining during s) \<noteq> Pending"
  by (cases t)
     (simp_all add: cancel_remaining_def cancel_and_await_settled cancel_and_await_self
      del: task_state_of.simps)

subsection \<open>The finally block\<close>

lemma terminal_finally_running:
  assumes "returncode (proc s) = None" and "terminal_finally r dw dc s = (f, waited)"
  shows "signals (proc f) = signals (fst (wait_for_exit r (terminate (proc s))))"
    and "returncode (proc f) = returncode (fst (wait_for_exit r (terminate (proc s))))"
    and "waited = snd (wait_for_exit r (terminate (proc s)))"
    and "stdin_closed (proc f) = (has_stdin (proc s) \<or> stdin_closed (proc s))"
proof -
  define p0 where "p0 = (if has_stdin (proc s) then (proc s)\<lparr>stdin_closed := True\<rparr> else proc s)"
  define s1 where "s1 = fold run_task dw (s\<lparr>proc := terminate p0\<rparr>)"
  obtain p t where w: "wait_for_exit r (proc s1) = (p, t)" by (cases "wait_for_exit r (proc s1)")
  have f: "f = (case t of None \<Rightarrow> s1\<lparr>proc := p\<rparr>
                | Some x \<Rightarrow> cancel_remaining dc (s1\<lparr>proc := p\<rparr>))" and t: "waited = t"
    using assms w by (auto simp: terminal_finally_def Let_def p0_def s1_def split: option.splits)
  have s1: "signals (proc s1) = signals (terminate (proc s))"
    "returncode (proc s1) = returncode (terminate (proc s))"
    "stdin_closed (proc s1) = (has_stdin (proc s) \<or> stdin_closed (proc s))"
    by (simp_all add: s1_def fold_run_task_proc p0_def terminate_def)
  have pf: "signals (proc f) = signals p" "returncode (proc f) = returncode p"
    "stdin_closed (proc f) = stdin_closed p"
    by (simp_all add: f cancel_remaining_proc split: option.splits)
  from wait_for_exit_congruent[OF s1(1,2), of r] w
  have "signals p = signals (fst (wait_for_exit r (terminate (proc s))))"
    "returncode p = returncode (fst (wait_for_exit r (terminate (proc s))))"
    "t = snd (wait_for_exit r (terminate (proc s)))" by simp_all
  with pf t show "signals (proc f) = signals (fst (wait_for_exit r (terminate (proc s))))"
    "returncode (proc f) = returncode (fst (wait_for_exit r (terminate (proc s))))"
    "waited = snd (wait_for_exit r (terminate (proc s)))" by simp_all
  from wait_for_exit_fields(1)[OF w] pf(3) s1(3)
  show "stdin_closed (proc f) = (has_stdin (proc s) \<or> stdin_closed (proc s))" by simp
qed

lemma terminal_finally_as_claimed:
  assumes "returncode (proc s) = None" and "signals (proc s) = []"
    and "terminal_finally r dw dc s = (f, waited)"
  shows "reaped_as_claimed r (proc f)
           (if waited = None then HandlerSuspended else HandlerReturned) waited"
proof -
  obtain p' t where w: "wait_for_exit r (terminate (proc s)) = (p', t)"
    by (cases "wait_for_exit r (terminate (proc s))")
  have a: "reaped_as_claimed r p' (if t = None then HandlerSuspended else HandlerReturned) t"
    using assms(1,2) by (intro wait_for_exit_as_claimed[OF w]) (simp_all add: terminate_def)
  from terminal_finally_running(1-3)[OF assms(1,3)] w
  have "signals (proc f) = signals p'" "returncode (proc f) = returncode p'" "waited = t"
    by simp_all
  with a show ?thesis by (auto simp: reaped_as_claimed_def split: if_splits option.splits)
qed

lemma terminal_finally_tasks:
  assumes "terminal_finally r dw dc s = (f, Some t)"
  shows "task_state_of u f \<noteq> Pending"
    and "task_state_of u s = Done \<Longrightarrow> task_state_of u f = Done"
proof -
  from assms obtain s' where f: "f = cancel_remaining dc s'"
    and keep: "\<And>u. task_state_of u s \<noteq> Pending \<Longrightarrow> task_state_of u s' = task_state_of u s"
    by (auto simp: terminal_finally_def Let_def fold_run_task_settled
        split: if_splits prod.splits option.splits)
  show "task_state_of u f \<noteq> Pending" unfolding f by (rule cancel_remaining_none_pending)
  assume d: "task_state_of u s = Done"
  with keep[of u] have "task_state_of u s' = Done" by simp
  then show "task_state_of u f = Done" unfolding f by (simp add: cancel_remaining_settled)
qed

lemma terminal_finally_returns:
  assumes "exits_in_time r \<or> exit_after_kill r \<noteq> None"
  shows "\<exists>f t. terminal_finally r dw dc s = (f, Some t) \<and> returncode (proc f) \<noteq> None \<and>
           signals (proc f) =
             signals (proc s) @
             (if returncode (proc s) = None
              then (if exits_in_time r then [SIGTERM] else [SIGTERM, SIGKILL]) else [])"
proof (cases "returncode (proc s) = None")
  case False
  then show ?thesis by (auto simp: terminal_finally_def cancel_remaining_proc)
next
  case True
  obtain f waited where e: "terminal_finally r dw dc s = (f, waited)"
    by (cases "terminal_finally r dw dc s")
  from wait_for_exit_returns[OF assms, of "terminate (proc s)"]
  obtain p' t where w: "wait_for_exit r (terminate (proc s)) = (p', Some t)"
    and p': "returncode p' \<noteq> None"
      "signals p' = signals (terminate (proc s)) @ (if exits_in_time r then [] else [SIGKILL])"
    by blast
  from terminal_finally_running(1-3)[OF True e] w p'
  have "waited = Some t" "returncode (proc f) \<noteq> None"
    "signals (proc f) = signals (proc s) @ (if exits_in_time r then [SIGTERM] else [SIGTERM, SIGKILL])"
    by (simp_all add: terminate_def)
  with e True show ?thesis by simp
qed

lemma terminal_finally_signals:
  assumes "terminal_finally r dw dc s = (f, waited)"
  shows "signals (proc f) =
           signals (proc s) @
           (if returncode (proc s) = None
            then (if exits_in_time r then [SIGTERM] else [SIGTERM, SIGKILL]) else [])"
proof (cases "returncode (proc s) = None")
  case True
  from terminal_finally_running(1)[OF True assms] True show ?thesis
    by (simp add: wait_for_exit_cases terminate_def split: option.splits)
next
  case False
  with assms show ?thesis by (auto simp: terminal_finally_def cancel_remaining_proc)
qed

lemma terminal_finally_keeps_done:
  assumes "terminal_finally r dw dc s = (f, waited)" and "task_state_of u s = Done"
  shows "task_state_of u f = Done"
  using assms
  by (auto simp: terminal_finally_def Let_def fold_run_task_settled cancel_remaining_settled
      split: if_splits prod.splits option.splits)

lemma terminal_websocket_running:
  assumes "env_id \<noteq> []" and "spawn_error w = None"
    and "wait_first_completed (wakeup_delay w) (schedule w) (terminal_start sys w env_id) = (True, s1)"
    and "terminal_finally (signal_reaction w) (schedule_during_cleanup w)
           (schedule_during_cancel w) s1 = (f, waited)"
  shows "final_session (terminal_websocket sys w env_id) = Some f"
    and "outcome (terminal_websocket sys w env_id) =
           (if waited = None then HandlerSuspended else HandlerReturned)"
    and "teardown_wait (terminal_websocket sys w env_id) = waited"
  using assms by (simp_all add: terminal_websocket_def Let_def)

lemma terminal_start_proc:
  "signals (proc (terminal_start sys w env_id)) = []"
  "has_stdin (proc (terminal_start sys w env_id))"
  by (simp_all add: terminal_start_def spawn_def)

section \<open>Properties of the watch session\<close>

lemma watch_steps_inbound:
  "winbound (watch_stdout_step s) = winbound s" "winbound (watch_stderr_step s) = winbound s"
  by (auto simp: watch_stdout_step_def watch_stderr_step_def
      split: list.splits prod.splits loop_step.splits)

lemma watch_steps_proc:
  "wproc (watch_stdout_step s) = wproc s" "wproc (watch_stderr_step s) = wproc s"
  by (auto simp: watch_stdout_step_def watch_stderr_step_def
      split: list.splits prod.splits loop_step.splits)

lemma fold_run_reader_proc: "wproc (fold run_reader rs s) = wproc s"
proof (induction rs arbitrary: s)
  case Nil
  show ?case by simp
next
  case (Cons x rs)
  then show ?case by (cases x) (simp_all add: watch_steps_proc)
qed

lemma watch_cancel_tasks_proc: "wproc (watch_cancel_tasks during s) = wproc s"
  by (simp add: watch_cancel_tasks_def Let_def fold_run_reader_proc)

lemma receive_loop_signals: "signals (wproc (snd (receive_loop es s))) = signals (wproc s)"
proof (induction es s rule: receive_loop.induct)
  case (5 es s)
  then show ?case by (cases "winbound s") (auto split: text_result.splits)
qed (simp_all add: watch_steps_proc process_exits_def)

lemma watch_finally_running:
  assumes "returncode (wproc s) = None" and "watch_finally r dw dc s = (f, waited)"
  shows "wait_for_exit r (terminate (wproc s)) = (wproc f, waited)"
  using assms
  by (auto simp: watch_finally_def Let_def fold_run_reader_proc watch_cancel_tasks_proc
      split: prod.splits option.splits)

lemma watch_websocket_running:
  assumes "watch_spawn_error w = None"
    and "receive_loop (watch_schedule w) (watch_start sys w) = (Some how, s1)"
    and "watch_finally (watch_reaction w) (watch_during_cleanup w) (watch_during_cancel w) s1
           = (f, waited)"
  shows "watch_final_session (watch_environments_websocket sys w) = Some f"
    and "watch_outcome (watch_environments_websocket sys w) =
           (if waited = None then HandlerSuspended else HandlerReturned)"
    and "watch_teardown_wait (watch_environments_websocket sys w) = waited"
    and "torn_down (watch_environments_websocket sys w)"
  using assms by (simp_all add: watch_environments_websocket_def Let_def)

text \<open>
  A run of a watch session in full: the peer disconnects, and while the handler waits for
  the process, which exits on SIGTERM, the stdout reader reads the line, fails to send it
  to the peer that is gone, and ends, and the stderr reader reaches the end of its pipe, so
  that the loop that cancels finds both readers done.
\<close>

lemma watch_run_in_full:
  "map_option (\<lambda>f. (wstdout_task f, wstderr_task f, signals (wproc f), returncode (wproc f),
                     outbox (wws f)))
     (watch_final_session (watch_environments_websocket example_system
        ((line1_world [TextDisconnect] [RunHandler])
           \<lparr>watch_during_cleanup := [StdoutReader, StderrReader]\<rparr>)))
   = Some (Done, Done, [SIGTERM], Some (- 15), [])"
  by (simp add: watch_environments_websocket_def Let_def line1_world_def watch_start_def
      watch_finally_def watch_cancel_tasks_def terminate_def wait_for_exit_def obedient_def
      watch_stdout_step_def watch_stderr_step_def forward_output_def send_json_def
      ws_accept_def new_websocket_def spawn_def bytes_of_def str_def tagged_def)

text \<open>
  C1: when the teardown of a watch session or of a terminal session starts while the
  process is still running (it has no return code), the teardown sends SIGTERM and waits at
  most 5000 ms for the exit. If the process exits in that time no other signal is sent and
  the handler goes on. If not, SIGKILL is sent and the handler waits with no bound: it
  returns only once the process has a return code, and stays suspended if the process is
  never collected. In the terminal session the standard input of the process is closed as
  well. The teardown of a watch session starts when the handler leaves its receive loop,
  that of a terminal session when the wait for the first task returns.
\<close>

theorem cleanup_terminates_then_kills:
  assumes "watch_spawn_error w = None"
    and "receive_loop (watch_schedule w) (watch_start sys w) = (Some how, s1)"
    and "returncode (wproc s1) = None"
    and "env_id \<noteq> []" and "spawn_error v = None"
    and "wait_first_completed (wakeup_delay v) (schedule v) (terminal_start sys v env_id)
           = (True, t1)"
    and "returncode (proc t1) = None"
  shows
    "(\<exists>f. watch_final_session (watch_environments_websocket sys w) = Some f \<and>
          torn_down (watch_environments_websocket sys w) \<and>
          reaped_as_claimed (watch_reaction w) (wproc f)
            (watch_outcome (watch_environments_websocket sys w))
            (watch_teardown_wait (watch_environments_websocket sys w)))
     \<and> (\<exists>f. final_session (terminal_websocket sys v env_id) = Some f \<and>
          stdin_closed (proc f) \<and>
          reaped_as_claimed (signal_reaction v) (proc f)
            (outcome (terminal_websocket sys v env_id))
            (teardown_wait (terminal_websocket sys v env_id)))"
proof (intro conjI)
  obtain f waited where
    e: "watch_finally (watch_reaction w) (watch_during_cleanup w) (watch_during_cancel w) s1
          = (f, waited)"
    by (cases "watch_finally (watch_reaction w) (watch_during_cleanup w) (watch_during_cancel w) s1")
  have "signals (wproc s1) = signals (wproc (watch_start sys w))"
    using receive_loop_signals[of "watch_schedule w" "watch_start sys w"] assms(2) by simp
  then have sig: "signals (terminate (wproc s1)) = [SIGTERM]"
    by (simp add: terminate_def watch_start_def spawn_def)
  have rc: "returncode (terminate (wproc s1)) = None" using assms(3) by (simp add: terminate_def)
  from wait_for_exit_as_claimed[OF watch_finally_running[OF assms(3) e] sig rc]
    watch_websocket_running[OF assms(1,2) e]
  show "\<exists>f. watch_final_session (watch_environments_websocket sys w) = Some f \<and>
          torn_down (watch_environments_websocket sys w) \<and>
          reaped_as_claimed (watch_reaction w) (wproc f)
            (watch_outcome (watch_environments_websocket sys w))
            (watch_teardown_wait (watch_environments_websocket sys w))"
    by simp
next
  obtain f waited where
    e: "terminal_finally (signal_reaction v) (schedule_during_cleanup v)
          (schedule_during_cancel v) t1 = (f, waited)"
    by (cases "terminal_finally (signal_reaction v) (schedule_during_cleanup v)
          (schedule_during_cancel v) t1")
  from wait_first_completed_proc[of "wakeup_delay v" "schedule v" "terminal_start sys v env_id"]
    assms(6)
  have t1: "signals (proc t1) = []" "has_stdin (proc t1)"
    by (simp_all add: terminal_start_proc)
  from terminal_finally_as_claimed[OF assms(7) t1(1) e]
    terminal_finally_running(4)[OF assms(7) e] t1(2)
    terminal_websocket_running[OF assms(4,5,6) e]
  show "\<exists>f. final_session (terminal_websocket sys v env_id) = Some f \<and>
          stdin_closed (proc f) \<and>
          reaped_as_claimed (signal_reaction v) (proc f)
            (outcome (terminal_websocket sys v env_id))
            (teardown_wait (terminal_websocket sys v env_id))"
    by simp
qed

theorem cleanup_terminates_then_kills_witness:
  "watch_spawn_error stubborn_watch = None
   \<and> fst (receive_loop (watch_schedule stubborn_watch) (watch_start example_system stubborn_watch))
       = Some ByDisconnect
   \<and> returncode (wproc (snd (receive_loop (watch_schedule stubborn_watch)
        (watch_start example_system stubborn_watch)))) = None
   \<and> str ''env-7'' \<noteq> [] \<and> spawn_error busy_world = None
   \<and> fst (wait_first_completed (wakeup_delay busy_world) (schedule busy_world)
        (terminal_start example_system busy_world (str ''env-7'')))
   \<and> returncode (proc (snd (wait_first_completed (wakeup_delay busy_world) (schedule busy_world)
        (terminal_start example_system busy_world (str ''env-7''))))) = None
   \<and> map_option (\<lambda>f. signals (wproc f))
        (watch_final_session (watch_environments_websocket example_system stubborn_watch))
       = Some [SIGTERM, SIGKILL]
   \<and> watch_teardown_wait (watch_environments_websocket example_system stubborn_watch) = Some 5001
   \<and> watch_outcome (watch_environments_websocket example_system stubborn_watch) = HandlerReturned
   \<and> map_option (\<lambda>f. (signals (proc f), stdin_closed (proc f)))
        (final_session (terminal_websocket example_system busy_world (str ''env-7'')))
       = Some ([SIGTERM, SIGKILL], True)
   \<and> teardown_wait (terminal_websocket example_system busy_world (str ''env-7'')) = Some 5001
   \<and> outcome (terminal_websocket example_system busy_world (str ''env-7'')) = HandlerReturned"
proof -
  let ?W = "receive_loop (watch_schedule stubborn_watch) (watch_start example_system stubborn_watch)"
  let ?T = "wait_first_completed (wakeup_delay busy_world) (schedule busy_world)
        (terminal_start example_system busy_world (str ''env-7''))"
  have h1: "watch_spawn_error stubborn_watch = None"
    by (simp add: stubborn_watch_def line1_world_def)
  have w: "fst ?W = Some ByDisconnect \<and> returncode (wproc (snd ?W)) = None"
    by (simp add: stubborn_watch_def line1_world_def watch_start_def watch_stdout_step_def
        forward_output_def send_json_def ws_accept_def new_websocket_def spawn_def bytes_of_def
        str_def tagged_def)
  then have h2: "?W = (Some ByDisconnect, snd ?W)" by (metis prod.collapse)
  from w have h3: "returncode (wproc (snd ?W)) = None" by simp
  have h4: "str ''env-7'' \<noteq> []" by (simp add: str_def)
  have h5: "spawn_error busy_world = None" by (simp add: busy_world_def)
  have t: "fst ?T \<and> returncode (proc (snd ?T)) = None"
    by (simp add: busy_world_def terminal_start_def any_done_def stdout_step_def input_step_def
        forward_output_def send_json_def ws_accept_def new_websocket_def spawn_def bytes_of_def
        str_def tagged_def note_disconnect_def)
  then have h6: "?T = (True, snd ?T)" by (metis prod.collapse)
  from t have h7: "returncode (proc (snd ?T)) = None" by simp
  have r: "\<not> exits_in_time stubborn" "exit_after_kill stubborn = Some 1"
    by (simp_all add: exits_in_time_def stubborn_def)
  have r1: "watch_reaction stubborn_watch = stubborn"
    by (simp add: stubborn_watch_def)
  have r2: "signal_reaction busy_world = stubborn" by (simp add: busy_world_def)
  from cleanup_terminates_then_kills [OF h1 h2 h3 h4 h5 h6 h7]
  have "map_option (\<lambda>f. signals (wproc f))
        (watch_final_session (watch_environments_websocket example_system stubborn_watch))
       = Some [SIGTERM, SIGKILL]
   \<and> watch_teardown_wait (watch_environments_websocket example_system stubborn_watch) = Some 5001
   \<and> watch_outcome (watch_environments_websocket example_system stubborn_watch) = HandlerReturned
   \<and> map_option (\<lambda>f. (signals (proc f), stdin_closed (proc f)))
        (final_session (terminal_websocket example_system busy_world (str ''env-7'')))
       = Some ([SIGTERM, SIGKILL], True)
   \<and> teardown_wait (terminal_websocket example_system busy_world (str ''env-7'')) = Some 5001
   \<and> outcome (terminal_websocket example_system busy_world (str ''env-7'')) = HandlerReturned"
    unfolding r1 r2 by (auto simp: reaped_as_claimed_def r)
  with h1 w h4 h5 t show ?thesis by blast
qed

lemma events_keep_uncancelled:
  "task_state_of t s \<noteq> Cancelled \<Longrightarrow> task_state_of t (run_task u s) \<noteq> Cancelled"
  by (cases t; cases u)
     (auto simp: stdout_step_def stderr_step_def input_step_def
      split: list.splits prod.splits loop_step.splits)

lemma apply_event_uncancelled:
  "task_state_of t s \<noteq> Cancelled \<Longrightarrow> task_state_of t (apply_event e s) \<noteq> Cancelled"
  by (cases e) (simp_all add: events_keep_uncancelled del: task_state_of.simps)

lemma fold_apply_event_uncancelled:
  "task_state_of t s \<noteq> Cancelled \<Longrightarrow> task_state_of t (fold apply_event es s) \<noteq> Cancelled"
  by (induction es arbitrary: s) (simp_all add: apply_event_uncancelled del: task_state_of.simps)

lemma wait_first_completed_uncancelled:
  "task_state_of t s \<noteq> Cancelled \<Longrightarrow>
   task_state_of t (snd (wait_first_completed d es s)) \<noteq> Cancelled"
proof (induction es arbitrary: s)
  case Nil
  then show ?case by simp
next
  case (Cons e es)
  show ?case
  proof (cases "any_done s")
    case True
    with fold_apply_event_uncancelled[OF Cons.prems, of "take d (e # es)"] show ?thesis by simp
  next
    case False
    with Cons.IH[OF apply_event_uncancelled[OF Cons.prems, of e]] show ?thesis by simp
  qed
qed

lemma terminal_start_tasks: "task_state_of t (terminal_start sys w env_id) = Pending"
  by (cases t) (simp_all add: terminal_start_def)

text \<open>
  C2: in a terminal session whose process was started, when one of the three tasks (stdout
  reader, stderr reader, inbound relay) completes, the wait of the handler returns, with a
  task done, and the \<open>finally\<close> block runs: the process is cleaned up (SIGTERM, and
  SIGKILL after the five seconds, when it has not exited by itself). A task that was done
  when the handler went on stays done, and only a task that was still pending then can end
  up cancelled. When the process exits on SIGTERM in time or is collected after SIGKILL,
  the handler returns with the process collected and with no task running any more: each
  task that was still pending has finished in the meantime or has been cancelled.
\<close>

theorem first_completed_ends_session:
  assumes "env_id \<noteq> []" and "spawn_error w = None"
    and "any_done (fold apply_event (schedule w) (terminal_start sys w env_id))"
  shows
    "\<exists>s1 f. wait_first_completed (wakeup_delay w) (schedule w) (terminal_start sys w env_id)
              = (True, s1)
         \<and> any_done s1
         \<and> final_session (terminal_websocket sys w env_id) = Some f
         \<and> signals (proc f) =
             (if returncode (proc s1) = None
              then (if exits_in_time (signal_reaction w) then [SIGTERM] else [SIGTERM, SIGKILL])
              else [])
         \<and> (\<forall>t. task_state_of t s1 = Done \<longrightarrow> task_state_of t f = Done)
         \<and> (\<forall>t. task_state_of t f = Cancelled \<longrightarrow> task_state_of t s1 = Pending)
         \<and> (exits_in_time (signal_reaction w) \<or> exit_after_kill (signal_reaction w) \<noteq> None
              \<longrightarrow>
              outcome (terminal_websocket sys w env_id) = HandlerReturned
              \<and> returncode (proc f) \<noteq> None
              \<and> (\<forall>t. task_state_of t f \<noteq> Pending))"
proof -
  let ?start = "terminal_start sys w env_id"
  let ?wait = "wait_first_completed (wakeup_delay w) (schedule w) ?start"
  let ?r = "signal_reaction w"
  define s1 where "s1 = snd ?wait"
  have "fst ?wait" using assms(3) by (simp add: wait_first_completed_returns)
  then have wt: "?wait = (True, s1)" and dn: "any_done s1"
    using wait_first_completed_done[of "wakeup_delay w" "schedule w" ?start]
    by (simp_all add: s1_def prod_eq_iff)
  obtain f waited where
    fin: "terminal_finally ?r (schedule_during_cleanup w) (schedule_during_cancel w) s1
            = (f, waited)"
    by (cases "terminal_finally ?r (schedule_during_cleanup w) (schedule_during_cancel w) s1")
  have s0: "signals (proc s1) = []"
    using wait_first_completed_proc[of "wakeup_delay w" "schedule w" ?start]
    by (simp add: s1_def terminal_start_proc)
  note res = terminal_websocket_running[OF assms(1,2) wt fin]
  have sg: "signals (proc f) =
             (if returncode (proc s1) = None
              then (if exits_in_time ?r then [SIGTERM] else [SIGTERM, SIGKILL]) else [])"
    using terminal_finally_signals[OF fin] s0 by simp
  have kd: "\<forall>u. task_state_of u s1 = Done \<longrightarrow> task_state_of u f = Done"
    using terminal_finally_keeps_done[OF fin] by blast
  have nc: "\<forall>u. task_state_of u f = Cancelled \<longrightarrow> task_state_of u s1 = Pending"
  proof (intro allI impI)
    fix u
    assume c: "task_state_of u f = Cancelled"
    have "task_state_of u s1 \<noteq> Cancelled"
      unfolding s1_def
      by (intro wait_first_completed_uncancelled) (simp add: terminal_start_tasks)
    moreover have "task_state_of u s1 \<noteq> Done" using kd c by auto
    ultimately show "task_state_of u s1 = Pending" by (cases "task_state_of u s1") simp_all
  qed
  have rt: "exits_in_time ?r \<or> exit_after_kill ?r \<noteq> None \<longrightarrow>
              outcome (terminal_websocket sys w env_id) = HandlerReturned
              \<and> returncode (proc f) \<noteq> None
              \<and> (\<forall>t. task_state_of t f \<noteq> Pending)"
  proof
    assume h: "exits_in_time ?r \<or> exit_after_kill ?r \<noteq> None"
    from terminal_finally_returns[OF h, of "schedule_during_cleanup w"
        "schedule_during_cancel w" s1] fin
    obtain t where t: "waited = Some t" and rc: "returncode (proc f) \<noteq> None" by auto
    from fin t have fin': "terminal_finally ?r (schedule_during_cleanup w)
        (schedule_during_cancel w) s1 = (f, Some t)" by simp
    have "\<forall>u. task_state_of u f \<noteq> Pending"
      using terminal_finally_tasks(1)[OF fin'] by blast
    with res(2) t rc show "outcome (terminal_websocket sys w env_id) = HandlerReturned
              \<and> returncode (proc f) \<noteq> None
              \<and> (\<forall>t. task_state_of t f \<noteq> Pending)" by simp
  qed
  show ?thesis
    apply (rule exI[of _ s1])
    apply (rule exI[of _ f])
    using wt dn res(1) sg kd nc rt by simp
qed

theorem first_completed_ends_session_witness:
  "str ''env-7'' \<noteq> [] \<and> spawn_error exit_world = None
   \<and> any_done (fold apply_event (schedule exit_world)
        (terminal_start example_system exit_world (str ''env-7'')))
   \<and> exits_in_time (signal_reaction exit_world)
   \<and> outcome (terminal_websocket example_system exit_world (str ''env-7'')) = HandlerReturned"
proof -
  have h1: "str ''env-7'' \<noteq> []" by (simp add: str_def)
  have h2: "spawn_error exit_world = None" by (simp add: exit_world_def)
  have h3: "any_done (fold apply_event (schedule exit_world)
        (terminal_start example_system exit_world (str ''env-7'')))"
    by (simp add: exit_world_def terminal_start_def any_done_def stdout_step_def
        stderr_step_def forward_output_def)
  have e: "exits_in_time (signal_reaction exit_world)"
    by (simp add: exit_world_def obedient_def exits_in_time_def)
  from first_completed_ends_session [OF h1 h2 h3] e
  have "outcome (terminal_websocket example_system exit_world (str ''env-7''))
       = HandlerReturned" by blast
  with h1 h2 h3 e show ?thesis by simp
qed

text \<open>
  Two runs in full. In the first the process exits by itself and both readers have reached
  the end of their pipes when the handler goes on: no signal is sent and only the inbound
  relay is cancelled. In the second the peer disconnects, the stderr reader finishes while
  the handler waits for the process, which ignores SIGTERM, and the stdout reader is
  cancelled.
\<close>

lemma terminal_runs_in_full:
  "map_option (\<lambda>f. (stdout_task f, stderr_task f, input_task f, signals (proc f),
                     returncode (proc f)))
     (final_session (terminal_websocket example_system exit_world (str ''env-7'')))
   = Some (Done, Done, Cancelled, [], Some 0)"
  "map_option (\<lambda>f. (stdout_task f, stderr_task f, input_task f, signals (proc f),
                     returncode (proc f), outbox (ws f)))
     (final_session (terminal_websocket example_system busy_world (str ''env-7'')))
   = Some (Cancelled, Done, Done, [SIGTERM, SIGKILL], Some (- 9),
           [tagged (str ''stdout'') (str ''a'')])"
  by (simp_all add: terminal_websocket_def Let_def exit_world_def busy_world_def
      terminal_start_def any_done_def stdout_step_def stderr_step_def input_step_def
      forward_output_def send_json_def ws_accept_def new_websocket_def spawn_def
      process_exits_def terminal_finally_def terminate_def wait_for_exit_def kill_and_wait_def
      cancel_remaining_def cancel_and_await_def obedient_def stubborn_def note_disconnect_def
      bytes_of_def str_def tagged_def)

text \<open>
  Once the tool has closed its standard input, a stdin command of the peer ends the inbound
  relay: the write raises.
\<close>

lemma stdin_command_after_tool_closed_stdin:
  "map_option (\<lambda>f. (input_task f, stdin_written (proc f)))
     (final_session (terminal_websocket example_system
        ((inbound_only
            [Message (JObject [(str ''type'', JString (str ''stdin'')),
                               (str ''data'', JString (str ''ls''))]),
             Message (JObject [(str ''type'', JString (str ''stdin'')),
                               (str ''data'', JString (str ''ps''))])])
         \<lparr>schedule := [Run InputTask, ProcessClosesStdin, Run InputTask]\<rparr>)
        (str ''env-7'')))
   = Some (Done, [bytes_of ''ls''])"
  by (simp add: terminal_websocket_def Let_def inbound_only_def
      terminal_start_def any_done_def input_step_def spawn_def dict_get_def stdin_write_def
      utf8_encode_char_def terminal_finally_def terminate_def wait_for_exit_def
      cancel_remaining_def cancel_and_await_def obedient_def note_disconnect_def
      bytes_of_def str_def)

lemma handle_message_other_object:
  "kind_of m = OtherObject \<Longrightarrow> handle_message m p = (Continue, p)"
  by (induction m rule: kind_of.induct) (auto split: if_splits)

lemma handle_message_malformed:
  "kind_of m = Malformed \<Longrightarrow> handle_message m p = (Break, p) \<and> m \<noteq> Disconnect"
  by (induction m rule: kind_of.induct) (auto split: if_splits)

text \<open>
  C3, as stated: a malformed inbound message is ignored and never ends the session. Here
  the only inbound event is a frame that \<open>receive_json\<close> cannot decode: the inbound
  relay ends, the wait of the handler returns, the process gets SIGTERM and the handler
  returns.
\<close>

theorem malformed_message_counterexample:
  "kind_of ReceiveRaises = Malformed
   \<and> outcome (terminal_websocket example_system (inbound_only [ReceiveRaises]) (str ''env-7''))
       = HandlerReturned
   \<and> map_option (\<lambda>s. (input_task s, signals (proc s), returncode (proc s)))
       (final_session
          (terminal_websocket example_system (inbound_only [ReceiveRaises]) (str ''env-7'')))
       = Some (Done, [SIGTERM], Some (- 15))"
  by (simp add: terminal_websocket_def Let_def inbound_only_def
      terminal_start_def any_done_def input_step_def spawn_def
      terminal_finally_def terminate_def wait_for_exit_def
      cancel_remaining_def cancel_and_await_def obedient_def note_disconnect_def str_def)

text \<open>
  C3, amended: an inbound message that decodes to a JSON object not tagged as a stdin
  command is ignored: the step of the inbound relay only consumes it, the relay stays
  pending and no task becomes done by it, so that it triggers no teardown. A malformed
  inbound message (a frame that cannot be decoded as JSON, or JSON that is not an object)
  ends the inbound relay, which is then done.
\<close>

theorem inbound_object_ignored_malformed_ends_relay:
  assumes "input_task s = Pending" and "inbound s = m # rest"
  shows "(kind_of m = OtherObject \<longrightarrow>
            input_step s = s\<lparr>inbound := rest\<rparr> \<and> any_done (input_step s) = any_done s)
       \<and> (kind_of m = Malformed \<longrightarrow>
            input_step s = s\<lparr>inbound := rest, input_task := Done\<rparr> \<and> any_done (input_step s))"
  using assms
  by (auto simp: input_step_def handle_message_other_object handle_message_malformed
      note_disconnect_def any_done_def)

theorem inbound_object_ignored_malformed_ends_relay_witness:
  "input_task (terminal_start example_system
      (inbound_only [Message (JObject [(str ''type'', JString (str ''resize''))])]) (str ''env-7''))
     = Pending
   \<and> kind_of (Message (JObject [(str ''type'', JString (str ''resize''))])) = OtherObject
   \<and> \<not> any_done (input_step (terminal_start example_system
        (inbound_only [Message (JObject [(str ''type'', JString (str ''resize''))])])
        (str ''env-7'')))
   \<and> input_task (terminal_start example_system (inbound_only [Message (JArray [])])
        (str ''env-7'')) = Pending
   \<and> kind_of (Message (JArray [])) = Malformed
   \<and> any_done (input_step (terminal_start example_system (inbound_only [Message (JArray [])])
        (str ''env-7'')))"
proof -
  let ?m = "Message (JObject [(str ''type'', JString (str ''resize''))])"
  let ?s = "terminal_start example_system (inbound_only [?m]) (str ''env-7'')"
  let ?s' = "terminal_start example_system (inbound_only [Message (JArray [])]) (str ''env-7'')"
  have p: "input_task ?s = Pending" by (simp add: terminal_start_def)
  have i: "inbound ?s = [?m]" by (simp add: terminal_start_def inbound_only_def)
  have k: "kind_of ?m = OtherObject" by (simp add: dict_get_def str_def)
  have n: "\<not> any_done ?s" by (simp add: terminal_start_def any_done_def)
  have p': "input_task ?s' = Pending" by (simp add: terminal_start_def)
  have i': "inbound ?s' = [Message (JArray [])]" by (simp add: terminal_start_def inbound_only_def)
  have k': "kind_of (Message (JArray [])) = Malformed" by simp
  from inbound_object_ignored_malformed_ends_relay [OF p i] k n
  have a: "\<not> any_done (input_step ?s)" by blast
  from inbound_object_ignored_malformed_ends_relay [OF p' i'] k'
  have b: "any_done (input_step ?s')" by blast
  from p k a p' k' b show ?thesis by blast
qed

section \<open>The receive loop of the watch session\<close>

lemma receive_loop_text_only:
  "list_all is_text (winbound s) \<Longrightarrow> fst (receive_loop es s) = None"
proof (induction es s rule: receive_loop.induct)
  case (5 es s)
  show ?case
  proof (cases "winbound s")
    case Nil
    with "5.IH"(1) "5.prems" show ?thesis by simp
  next
    case (Cons m ms)
    with "5.prems" obtain t where m: "m = Text t" by (cases m) auto
    with Cons "5.prems" "5.IH"(2)[OF Cons[unfolded m]] show ?thesis by simp
  qed
qed (simp_all add: watch_steps_inbound)

lemma receive_loop_disconnect:
  "winbound s = ts @ TextDisconnect # ms \<Longrightarrow> list_all is_text ts \<Longrightarrow>
   length ts < length (filter (\<lambda>e. e = RunHandler) es) \<Longrightarrow>
   fst (receive_loop es s) = Some ByDisconnect"
proof (induction es s arbitrary: ts rule: receive_loop.induct)
  case (5 es s)
  show ?case
  proof (cases ts)
    case Nil
    with "5.prems"(1) show ?thesis by simp
  next
    case (Cons t ts')
    with "5.prems"(2) obtain x where t: "t = Text x" by (cases t) auto
    have w: "winbound s = Text x # (ts' @ TextDisconnect # ms)"
      using "5.prems"(1) Cons t by simp
    have "fst (receive_loop es (s\<lparr>winbound := ts' @ TextDisconnect # ms\<rparr>)) = Some ByDisconnect"
      using "5.prems"(2,3) Cons by (intro "5.IH"(2)[OF w, where ts = ts']) simp_all
    with w show ?thesis by simp
  qed
qed (simp_all add: watch_steps_inbound)

lemma watch_torn_down_iff:
  "watch_spawn_error w = None \<Longrightarrow>
   torn_down (watch_environments_websocket sys w) =
     (fst (receive_loop (watch_schedule w) (watch_start sys w)) \<noteq> None)"
  by (auto simp: watch_environments_websocket_def Let_def split: prod.splits option.splits)

lemma watch_suspended:
  "watch_spawn_error w = None \<Longrightarrow>
   fst (receive_loop (watch_schedule w) (watch_start sys w)) = None \<Longrightarrow>
   watch_outcome (watch_environments_websocket sys w) = HandlerSuspended"
  by (auto simp: watch_environments_websocket_def Let_def split: prod.splits option.splits)

text \<open>
  C5, as stated: any inbound data message makes the receive loop of the watch channel
  trigger the shutdown. Here the peer sends the text \<open>hello\<close> and stays connected: the
  handler takes the text, drops it and waits again; the \<open>finally\<close> block is not entered.
\<close>

theorem watch_inbound_text_counterexample:
  "\<not> torn_down (watch_environments_websocket example_system
        (line1_world [Text (str ''hello'')] [RunHandler, RunHandler]))
   \<and> watch_outcome (watch_environments_websocket example_system
        (line1_world [Text (str ''hello'')] [RunHandler, RunHandler])) = HandlerSuspended
   \<and> map_option winbound (watch_final_session (watch_environments_websocket example_system
        (line1_world [Text (str ''hello'')] [RunHandler, RunHandler]))) = Some []"
  by (simp add: watch_environments_websocket_def Let_def line1_world_def watch_start_def)

text \<open>
  C5, amended: in the watch channel, the close frame of the peer (its disconnect), once the
  receive loop takes it, triggers the shutdown of the session; an inbound text message does
  not: the loop drops it and keeps waiting, and a session whose inbound events are all text
  messages is not torn down by them.
\<close>

theorem watch_shutdown_on_disconnect_only:
  assumes "watch_spawn_error w = None"
  shows "(list_all is_text (watch_inbound_script w) \<longrightarrow>
            \<not> torn_down (watch_environments_websocket sys w) \<and>
            watch_outcome (watch_environments_websocket sys w) = HandlerSuspended)
       \<and> (\<forall>ts ms. watch_inbound_script w = ts @ TextDisconnect # ms \<and> list_all is_text ts \<and>
              length ts < length (filter (\<lambda>e. e = RunHandler) (watch_schedule w)) \<longrightarrow>
            torn_down (watch_environments_websocket sys w))"
proof (intro conjI impI allI)
  assume t: "list_all is_text (watch_inbound_script w)"
  then have n: "fst (receive_loop (watch_schedule w) (watch_start sys w)) = None"
    by (intro receive_loop_text_only) (simp add: watch_start_def)
  then show "\<not> torn_down (watch_environments_websocket sys w)"
    by (simp add: watch_torn_down_iff[OF assms])
  from n show "watch_outcome (watch_environments_websocket sys w) = HandlerSuspended"
    by (rule watch_suspended[OF assms])
next
  fix ts ms
  assume a: "watch_inbound_script w = ts @ TextDisconnect # ms \<and> list_all is_text ts \<and>
              length ts < length (filter (\<lambda>e. e = RunHandler) (watch_schedule w))"
  have "fst (receive_loop (watch_schedule w) (watch_start sys w)) = Some ByDisconnect"
    using a by (intro receive_loop_disconnect[of _ ts ms]) (simp_all add: watch_start_def)
  then show "torn_down (watch_environments_websocket sys w)"
    by (simp add: watch_torn_down_iff[OF assms])
qed

theorem watch_shutdown_on_disconnect_only_witness:
  "watch_spawn_error (line1_world [Text (str ''hello'')] [RunHandler]) = None
   \<and> list_all is_text (watch_inbound_script (line1_world [Text (str ''hello'')] [RunHandler]))
   \<and> \<not> torn_down (watch_environments_websocket example_system
          (line1_world [Text (str ''hello'')] [RunHandler]))
   \<and> watch_spawn_error (line1_world [TextDisconnect] [RunHandler]) = None
   \<and> watch_inbound_script (line1_world [TextDisconnect] [RunHandler]) = [] @ TextDisconnect # []
   \<and> length ([] :: text_result list)
       < length (filter (\<lambda>e. e = RunHandler) (watch_schedule (line1_world [TextDisconnect] [RunHandler])))
   \<and> torn_down (watch_environments_websocket example_system
        (line1_world [TextDisconnect] [RunHandler]))"
proof -
  let ?w = "line1_world [Text (str ''hello'')] [RunHandler]"
  let ?v = "line1_world [TextDisconnect] [RunHandler]"
  have h: "watch_spawn_error ?w = None" by (simp add: line1_world_def)
  have t: "list_all is_text (watch_inbound_script ?w)" by (simp add: line1_world_def)
  have h': "watch_spawn_error ?v = None" by (simp add: line1_world_def)
  have d: "watch_inbound_script ?v = [] @ TextDisconnect # []" by (simp add: line1_world_def)
  have l: "length ([] :: text_result list)
       < length (filter (\<lambda>e. e = RunHandler) (watch_schedule ?v))"
    by (simp add: line1_world_def)
  from watch_shutdown_on_disconnect_only [OF h, of example_system] t
  have a: "\<not> torn_down (watch_environments_websocket example_system ?w)" by blast
  have "list_all is_text ([] :: text_result list)" by simp
  with watch_shutdown_on_disconnect_only [OF h', of example_system] d l
  have b: "torn_down (watch_environments_websocket example_system ?v)" by blast
  from h t a h' d l b show ?thesis by blast
qed

text \<open>
  C4, on the code: the process of a watch session writes \<open>line1\<close> and a line feed to
  stdout and exits, and the peer stays connected and sends nothing. Whatever the schedule,
  the handler stays in its receive loop and the \<open>finally\<close> block is not entered. Under
  a schedule in which both readers reach the end of their pipes and the process exits, the
  one stdout message has been sent, both readers are done, the process has its return code
  and has been sent no signal.
\<close>

theorem watch_process_exit_unnoticed:
  "\<not> torn_down (watch_environments_websocket sys (line1_world [] sched))
   \<and> watch_outcome (watch_environments_websocket sys (line1_world [] sched)) = HandlerSuspended
   \<and> map_option
       (\<lambda>s. (outbox (wws s), wstdout_task s, wstderr_task s, returncode (wproc s), signals (wproc s)))
       (watch_final_session (watch_environments_websocket example_system
          (line1_world [] [RunStdout, RunStdout, RunStderr, WatchedProcessExits 0, RunHandler])))
     = Some ([tagged (str ''stdout'') (str ''line1\<newline>'')], Done, Done, Some 0, [])"
proof (intro conjI)
  have s: "watch_spawn_error (line1_world [] sched) = None" by (simp add: line1_world_def)
  have n: "fst (receive_loop (watch_schedule (line1_world [] sched))
             (watch_start sys (line1_world [] sched))) = None"
    by (intro receive_loop_text_only) (simp add: watch_start_def line1_world_def)
  then show "\<not> torn_down (watch_environments_websocket sys (line1_world [] sched))"
    by (simp add: watch_torn_down_iff[OF s])
  from n show "watch_outcome (watch_environments_websocket sys (line1_world [] sched))
      = HandlerSuspended"
    by (rule watch_suspended[OF s])
  show "map_option
       (\<lambda>s. (outbox (wws s), wstdout_task s, wstderr_task s, returncode (wproc s), signals (wproc s)))
       (watch_final_session (watch_environments_websocket example_system
          (line1_world [] [RunStdout, RunStdout, RunStderr, WatchedProcessExits 0, RunHandler])))
     = Some ([tagged (str ''stdout'') (str ''line1\<newline>'')], Done, Done, Some 0, [])"
    by (simp add: watch_environments_websocket_def Let_def line1_world_def watch_start_def
        watch_stdout_step_def watch_stderr_step_def forward_output_def send_json_def
        ws_accept_def new_websocket_def spawn_def bytes_of_def str_def tagged_def
        process_exits_def)
qed

end
